theory Spec2Isabelle
  imports Complex_Main "HOL-Library.Word"
begin

unbundle bit_operations_syntax

section \<open>The desktop shell plug-in, \<^verbatim>\<open>src/shell.c\<close>\<close>

text \<open>
  The shell is a single-threaded plug-in: every entry point runs to completion on the
  compositor's event loop. Each C function below is a HOL function from the state before
  the call to the state after it.

  \<^item> Pointers to compositor objects are handles (natural numbers); the objects live in
    stores, fields of the state (\<open>shsurfs\<close>, \<open>surfaces\<close>, \<open>outputs\<close>, \<open>input_devices\<close>).
    A pointer that may be \<^verbatim>\<open>NULL\<close> is an \<open>option\<close>.
  \<^item> A \<^verbatim>\<open>wl_list\<close> is the list of its members read from the head; \<^verbatim>\<open>wl_list_remove\<close>
    and \<^verbatim>\<open>wl_list_insert\<close> are the list operations below.
  \<^item> \<^verbatim>\<open>uint32_t\<close> and \<^verbatim>\<open>unsigned\<close> values are \<open>32 word\<close>, so that they wrap as in C.
    \<^verbatim>\<open>int32_t\<close> values are \<open>int\<close>; where the shell adds or subtracts them (the resize
    grab), the result is reduced to 32 bits in two's complement by \<open>int32\<close>, as the
    compiled code does.
  \<^item> \<^verbatim>\<open>GLfloat\<close> values (surface positions, matrices) are real numbers: the rounding
    of \<^verbatim>\<open>float\<close> arithmetic is not modelled. A conversion from \<^verbatim>\<open>GLfloat\<close> to
    \<^verbatim>\<open>int32_t\<close> truncates towards zero.
  \<^item> Where the C code has no defined behaviour and the compiled code no single one (a
    \<^verbatim>\<open>NULL\<close> pointer dereferenced, a \<^verbatim>\<open>GLfloat\<close> outside the range of \<^verbatim>\<open>int32_t\<close>
    converted to it), the function returns a \<open>fault\<close>, \<open>Inl\<close> of its result.
  \<^item> A call that leaves the shell (a protocol event or error, a signal, a log line, a
    request to the compositor whose body is not in this file) is appended to the
    \<open>trace\<close> of the state, oldest first.
  \<^item> A result that the shell cannot predict (\<^verbatim>\<open>malloc\<close>, the time, a process launch, a
    coordinate transformation of the compositor) is an argument of the function.
\<close>

subsection \<open>Handles, enumerations, protocol constants\<close>

type_synonym client_id = nat
type_synonym output_id = nat
type_synonym surface_id = nat
type_synonym shsurf_id = nat
type_synonym device_id = nat

datatype shell_surface_type =
    SHELL_SURFACE_NONE
  | SHELL_SURFACE_PANEL
  | SHELL_SURFACE_BACKGROUND
  | SHELL_SURFACE_LOCK
  | SHELL_SURFACE_SCREENSAVER
  | SHELL_SURFACE_TOPLEVEL
  | SHELL_SURFACE_TRANSIENT
  | SHELL_SURFACE_FULLSCREEN
  | SHELL_SURFACE_MAXIMIZED
  | SHELL_SURFACE_POPUP

text \<open>
  The links of the global layer order: the five layers of \<^verbatim>\<open>struct wl_shell\<close>, the
  compositor's cursor layer, and any further layer the compositor owns.
\<close>

datatype layer =
    cursor_layer
  | fullscreen_layer
  | panel_layer
  | toplevel_layer
  | background_layer
  | lock_layer
  | compositor_layer nat

text \<open>
  A resource is the one embedded in a shell surface, the one embedded in a compositor
  surface, or one created for a client by
  \<^verbatim>\<open>wl_client_add_object (client, ..., id, shell)\<close>.
\<close>

datatype resource =
    Shsurf_resource shsurf_id
  | Surface_resource surface_id
  | Client_object client_id "32 word"

datatype fault = Null_dereference | Undefined_conversion

datatype display_error =
    WL_DISPLAY_ERROR_INVALID_OBJECT
  | WL_DISPLAY_ERROR_INVALID_METHOD
  | WL_DISPLAY_ERROR_NO_MEMORY

text \<open>
  Modelled from the spec: the resize edge bits of the \<^verbatim>\<open>wl_shell_surface\<close> protocol, whose
  header is not part of this file. The spec names the four edges; the values are the
  ones the masks \<^verbatim>\<open>3\<close> and \<^verbatim>\<open>12\<close> of \<^verbatim>\<open>weston_surface_resize\<close> test in pairs.
\<close>

definition WL_SHELL_SURFACE_RESIZE_TOP :: "32 word" where
  "WL_SHELL_SURFACE_RESIZE_TOP = 1"

definition WL_SHELL_SURFACE_RESIZE_BOTTOM :: "32 word" where
  "WL_SHELL_SURFACE_RESIZE_BOTTOM = 2"

definition WL_SHELL_SURFACE_RESIZE_LEFT :: "32 word" where
  "WL_SHELL_SURFACE_RESIZE_LEFT = 4"

definition WL_SHELL_SURFACE_RESIZE_RIGHT :: "32 word" where
  "WL_SHELL_SURFACE_RESIZE_RIGHT = 8"

definition WL_SHELL_SURFACE_FULLSCREEN_METHOD_DEFAULT :: "32 word" where
  "WL_SHELL_SURFACE_FULLSCREEN_METHOD_DEFAULT = 0"

subsection \<open>Lists\<close>

text \<open>
  \<^verbatim>\<open>wl_list_remove (&e)\<close> takes \<open>e\<close> out of the list it is on.
  \<^verbatim>\<open>wl_list_insert (&a, &e)\<close> puts \<open>e\<close> right after the member \<open>a\<close>;
  \<^verbatim>\<open>wl_list_insert (&head, &e)\<close> puts it first and
  \<^verbatim>\<open>wl_list_insert (head.prev, &e)\<close> last. Where \<open>a\<close> is not on the list the C
  code writes through the links \<open>a\<close> still holds; the model then leaves the list alone.
  For the global layer order no reachable state meets that case (lemma
  \<open>layer_links_present\<close>).
\<close>

definition wl_list_remove :: "'a \<Rightarrow> 'a list \<Rightarrow> 'a list" where
  "wl_list_remove e xs = removeAll e xs"

fun wl_list_insert :: "'a \<Rightarrow> 'a \<Rightarrow> 'a list \<Rightarrow> 'a list" where
  "wl_list_insert a e [] = []"
| "wl_list_insert a e (x # xs) =
     (if x = a then x # e # xs else x # wl_list_insert a e xs)"

definition wl_list_insert_head :: "'a \<Rightarrow> 'a list \<Rightarrow> 'a list" where
  "wl_list_insert_head e xs = e # xs"

definition wl_list_insert_tail :: "'a \<Rightarrow> 'a list \<Rightarrow> 'a list" where
  "wl_list_insert_tail e xs = xs @ [e]"

subsection \<open>Machine numbers\<close>

text \<open>
  The range of \<^verbatim>\<open>int32_t\<close>, and the reduction of an integer to it in two's
  complement: what the 32-bit addition and subtraction of the processor leave.
\<close>

definition is_int32 :: "int \<Rightarrow> bool" where
  "is_int32 x \<longleftrightarrow> - (2 ^ 31) \<le> x \<and> x < 2 ^ 31"

definition int32 :: "int \<Rightarrow> int" where
  "int32 x = sint (word_of_int x :: 32 word)"

text \<open>
  The conversion of a \<^verbatim>\<open>GLfloat\<close> to \<^verbatim>\<open>int32_t\<close>, as in
  \<^verbatim>\<open>shsurf->saved_x = es->geometry.x\<close>: the fraction is dropped; a value outside the
  range has no defined result.
\<close>

definition GLfloat_to_int32 :: "real \<Rightarrow> fault + int" where
  "GLfloat_to_int32 x =
     (let n = (if x < 0 then \<lceil>x\<rceil> else \<lfloor>x\<rfloor>)
      in if is_int32 n then Inr n else Inl Undefined_conversion)"

subsection \<open>Compositor objects the shell reads and writes\<close>

type_synonym weston_matrix = "real list"

datatype transform_link = fullscreen_transform | rotation_transform | popup_parent_transform

record weston_output =
  output_x :: int
  output_y :: int
  current_width :: int
  current_height :: int
  has_set_dpms :: bool

record weston_surface =
  geometry_x :: real
  geometry_y :: real
  geometry_width :: int
  geometry_height :: int
  geometry_dirty :: bool
  transformation_list :: "transform_link list"
  surface_output :: "output_id option"
  force_configure :: bool

record weston_resize_grab =
  resize_edges :: "32 word"
  resize_width :: int
  resize_height :: int
  resize_shsurf :: shsurf_id

record rotate_grab =
  rotate_surface :: shsurf_id
  rotate_rotation :: weston_matrix
  center_x :: int
  center_y :: int

datatype pointer_grab =
    default_pointer_grab
  | resize_grab_interface weston_resize_grab
  | rotate_grab_interface rotate_grab

record wl_input_device =
  button_count :: "32 word"
  grab_time :: "32 word"
  grab_x :: int
  grab_y :: int
  device_x :: int
  device_y :: int
  pointer_focus :: "surface_id option"
  pointer_grab :: pointer_grab

subsection \<open>Shell surfaces and the shell\<close>

record shell_surface =
  surface :: surface_id
  parent :: "shsurf_id option"
  type :: shell_surface_type
  saved_x :: int
  saved_y :: int
  saved_position_valid :: bool
  rotation_rotation :: weston_matrix
  rotation_transform_matrix :: weston_matrix
  popup_x :: int
  popup_y :: int
  fullscreen_type :: "32 word"
  fullscreen_framerate :: "32 word"
  black_surface :: "surface_id option"
  fullscreen_output :: "output_id option"
  shsurf_output :: "output_id option"

datatype event =
    Post_error resource display_error string
  | Post_no_memory resource
  | Resource_destroy resource
  | Shell_surface_send_configure shsurf_id "32 word" "32 word" int int
  | Send_prepare_lock_surface resource
  | Surface_destroy surface_id
  | Surface_damage surface_id
  | Client_launch string
  | Kill_SIGTERM int
  | Log string
  | Set_dpms_standby output_id
  | Set_keyboard_focus_null device_id "32 word"
  | Compositor_repick
  | Compositor_wake
  | Compositor_state_idle
  | Compositor_damage_all
  | Compositor_schedule_repaint

record wl_shell =
  layer_list :: "layer list"
  layer_surfaces :: "layer \<Rightarrow> surface_id list"
  output_list :: "output_id list"
  output_list_head :: output_id
  outputs :: "output_id \<Rightarrow> weston_output"
  input_device_list :: "device_id list"
  input_devices :: "device_id \<Rightarrow> wl_input_device"
  idle_time :: int
  option_idle_time :: int
  surfaces :: "surface_id \<Rightarrow> weston_surface"
  child_pid :: int
  child_client :: "client_id option"
  child_desktop_shell :: "resource option"
  child_deathcount :: "32 word"
  child_deathstamp :: "32 word"
  locked :: bool
  prepare_event_sent :: bool
  lock_surface :: "shsurf_id option"
  backgrounds :: "shsurf_id list"
  panels :: "shsurf_id list"
  screensaver_path :: "string option"
  screensaver_duration :: int
  screensaver_binding :: "resource option"
  screensaver_surfaces :: "shsurf_id list"
  screensaver_pid :: int
  shsurfs :: "shsurf_id \<Rightarrow> shell_surface"
  live_shsurfs :: "shsurf_id list"
  trace :: "event list"

definition emit :: "event \<Rightarrow> wl_shell \<Rightarrow> wl_shell" where
  "emit e s = s\<lparr>trace := trace s @ [e]\<rparr>"

definition update_shsurf :: "shsurf_id \<Rightarrow> (shell_surface \<Rightarrow> shell_surface) \<Rightarrow> wl_shell \<Rightarrow> wl_shell" where
  "update_shsurf i f s = s\<lparr>shsurfs := (shsurfs s)(i := f (shsurfs s i))\<rparr>"

definition update_surface :: "surface_id \<Rightarrow> (weston_surface \<Rightarrow> weston_surface) \<Rightarrow> wl_shell \<Rightarrow> wl_shell" where
  "update_surface i f s = s\<lparr>surfaces := (surfaces s)(i := f (surfaces s i))\<rparr>"

definition update_device :: "device_id \<Rightarrow> (wl_input_device \<Rightarrow> wl_input_device) \<Rightarrow> wl_shell \<Rightarrow> wl_shell" where
  "update_device i f s = s\<lparr>input_devices := (input_devices s)(i := f (input_devices s i))\<rparr>"

text \<open>
  \<^verbatim>\<open>weston_surface_set_position\<close> of the compositor stores the position and marks the
  geometry dirty.
\<close>

definition weston_surface_set_position :: "surface_id \<Rightarrow> real \<Rightarrow> real \<Rightarrow> wl_shell \<Rightarrow> wl_shell" where
  "weston_surface_set_position es x y s =
     update_surface es (\<lambda>g. g\<lparr>geometry_x := x, geometry_y := y, geometry_dirty := True\<rparr>) s"

text \<open>
  \<^verbatim>\<open>wl_input_device_start_pointer_grab\<close> of the protocol library makes the grab the
  device's pointer grab; \<^verbatim>\<open>wl_input_device_set_pointer_focus (device, NULL, ...)\<close>
  clears the pointer focus.
\<close>

definition wl_input_device_start_pointer_grab :: "device_id \<Rightarrow> pointer_grab \<Rightarrow> wl_shell \<Rightarrow> wl_shell" where
  "wl_input_device_start_pointer_grab wd g s = update_device wd (\<lambda>d. d\<lparr>pointer_grab := g\<rparr>) s"

definition wl_input_device_set_pointer_focus_null :: "device_id \<Rightarrow> wl_shell \<Rightarrow> wl_shell" where
  "wl_input_device_set_pointer_focus_null wd s = update_device wd (\<lambda>d. d\<lparr>pointer_focus := None\<rparr>) s"

subsection \<open>Resize grab\<close>

text \<open>
  \<^verbatim>\<open>resize_grab_motion\<close>. The grab is the one the device holds; \<open>from_global\<close> is the
  compositor's \<^verbatim>\<open>weston_surface_from_global\<close> for the grabbed surface, from global to
  surface-local coordinates. The sums are \<^verbatim>\<open>int32_t\<close> sums, evaluated from the left.
\<close>

definition resize_grab_motion ::
  "(surface_id \<Rightarrow> int \<times> int \<Rightarrow> int \<times> int) \<Rightarrow> weston_resize_grab \<Rightarrow> device_id \<Rightarrow> 32 word \<Rightarrow> wl_shell \<Rightarrow> wl_shell" where
  "resize_grab_motion from_global resize device time s =
     (let d = input_devices s device;
          es = surface (shsurfs s (resize_shsurf resize));
          (from_x, from_y) = from_global es (grab_x d, grab_y d);
          (to_x, to_y) = from_global es (device_x d, device_y d);
          width =
            (if resize_edges resize AND WL_SHELL_SURFACE_RESIZE_LEFT \<noteq> 0
               then int32 (int32 (resize_width resize + from_x) - to_x)
             else if resize_edges resize AND WL_SHELL_SURFACE_RESIZE_RIGHT \<noteq> 0
               then int32 (int32 (resize_width resize + to_x) - from_x)
             else resize_width resize);
          height =
            (if resize_edges resize AND WL_SHELL_SURFACE_RESIZE_TOP \<noteq> 0
               then int32 (int32 (resize_height resize + from_y) - to_y)
             else if resize_edges resize AND WL_SHELL_SURFACE_RESIZE_BOTTOM \<noteq> 0
               then int32 (int32 (resize_height resize + to_y) - from_y)
             else resize_height resize)
      in emit (Shell_surface_send_configure (resize_shsurf resize) time
                 (resize_edges resize) width height) s)"

text \<open>
  \<^verbatim>\<open>weston_surface_resize\<close>: the return value and the state. \<open>malloc_ok\<close> says whether
  the allocation of the grab succeeds.
\<close>

definition weston_surface_resize ::
  "bool \<Rightarrow> shsurf_id \<Rightarrow> device_id \<Rightarrow> 32 word \<Rightarrow> 32 word \<Rightarrow> wl_shell \<Rightarrow> int \<times> wl_shell" where
  "weston_surface_resize malloc_ok shsurf wd time edges s =
     (if type (shsurfs s shsurf) = SHELL_SURFACE_FULLSCREEN then (0, s)
      else if edges = 0 \<or> edges > 15 \<or> edges AND 3 = 3 \<or> edges AND 12 = 12 then (0, s)
      else if \<not> malloc_ok then (- 1, s)
      else
        let es = surfaces s (surface (shsurfs s shsurf));
            resize = \<lparr>resize_edges = edges,
                      resize_width = geometry_width es,
                      resize_height = geometry_height es,
                      resize_shsurf = shsurf\<rparr>
        in (0, wl_input_device_set_pointer_focus_null wd
                 (wl_input_device_start_pointer_grab wd (resize_grab_interface resize) s)))"

definition shell_surface_resize ::
  "bool \<Rightarrow> shsurf_id \<Rightarrow> device_id \<Rightarrow> 32 word \<Rightarrow> 32 word \<Rightarrow> wl_shell \<Rightarrow> wl_shell" where
  "shell_surface_resize malloc_ok shsurf wd time edges s =
     (if type (shsurfs s shsurf) = SHELL_SURFACE_FULLSCREEN then s
      else if button_count (input_devices s wd) = 0 \<or>
              grab_time (input_devices s wd) \<noteq> time \<or>
              pointer_focus (input_devices s wd) \<noteq> Some (surface (shsurfs s shsurf)) then s
      else
        case weston_surface_resize malloc_ok shsurf wd time edges s of
          (r, s') \<Rightarrow> if r < 0 then emit (Post_no_memory (Shsurf_resource shsurf)) s' else s')"

subsection \<open>Role state machine\<close>

text \<open>
  \<^verbatim>\<open>get_default_output\<close> is the member after the head of the compositor's output list,
  taken as an output. With no output that is the list head itself, and what the shell
  then reads through it is whatever the store holds at the handle \<open>output_list_head\<close>.
\<close>

definition get_default_output :: "wl_shell \<Rightarrow> output_id" where
  "get_default_output s =
     (case output_list s of [] \<Rightarrow> output_list_head s | output # _ \<Rightarrow> output)"

text \<open>
  \<^verbatim>\<open>weston_surface_destroy\<close> of the compositor, whose body is not in this file, destroys
  the surface through the resource embedded in it, so that it dereferences its argument:
  \<^verbatim>\<open>destroy_shell_surface\<close> tests the black surface for \<^verbatim>\<open>NULL\<close> before the call. The
  destruction of a surface is the event \<open>Surface_destroy\<close>.
\<close>

definition weston_surface_destroy :: "surface_id option \<Rightarrow> wl_shell \<Rightarrow> fault + wl_shell" where
  "weston_surface_destroy es s =
     (case es of
        None \<Rightarrow> Inl Null_dereference
      | Some b \<Rightarrow> Inr (emit (Surface_destroy b) s))"

text \<open>
  \<^verbatim>\<open>shell_unset_fullscreen\<close>. The black surface pointer is handed to
  \<^verbatim>\<open>weston_surface_destroy\<close> as it is, with no test.
\<close>

definition shell_unset_fullscreen :: "shsurf_id \<Rightarrow> wl_shell \<Rightarrow> fault + wl_shell" where
  "shell_unset_fullscreen shsurf s =
     (let es = surface (shsurfs s shsurf);
          s1 = update_shsurf shsurf
                 (\<lambda>h. h\<lparr>fullscreen_type := WL_SHELL_SURFACE_FULLSCREEN_METHOD_DEFAULT,
                         fullscreen_framerate := 0\<rparr>) s;
          s2 = update_surface es
                 (\<lambda>g. g\<lparr>transformation_list :=
                           wl_list_remove fullscreen_transform (transformation_list g)\<rparr>) s1
      in case weston_surface_destroy (black_surface (shsurfs s2 shsurf)) s2 of
           Inl f \<Rightarrow> Inl f
         | Inr s3 \<Rightarrow>
             let s4 = update_shsurf shsurf
                        (\<lambda>h. h\<lparr>black_surface := None, fullscreen_output := None\<rparr>) s3;
                 s5 = update_surface es (\<lambda>g. g\<lparr>force_configure := True\<rparr>) s4
             in Inr (weston_surface_set_position es
                       (real_of_int (saved_x (shsurfs s5 shsurf)))
                       (real_of_int (saved_y (shsurfs s5 shsurf))) s5))"

text \<open>
  \<^verbatim>\<open>wl_list_remove (&surface->link); wl_list_init (&surface->link)\<close>: the link is on
  one of the three role lists of the shell, or on none. A panel or background that
  \<^verbatim>\<open>desktop_shell_set_panel\<close> or \<^verbatim>\<open>desktop_shell_set_background\<close> has evicted keeps the
  links it had, and the removal then writes through them; these two requests are not
  modelled, and no function below leaves a link in that state.
\<close>

definition unlink_shsurf :: "shsurf_id \<Rightarrow> wl_shell \<Rightarrow> wl_shell" where
  "unlink_shsurf shsurf s =
     s\<lparr>backgrounds := wl_list_remove shsurf (backgrounds s),
       panels := wl_list_remove shsurf (panels s),
       screensaver_surfaces := wl_list_remove shsurf (screensaver_surfaces s)\<rparr>"

text \<open>
  \<^verbatim>\<open>reset_shell_surface_type\<close>: the return value and the state, or the fault of
  \<^verbatim>\<open>shell_unset_fullscreen\<close>.
\<close>

definition reset_shell_surface_type :: "shsurf_id \<Rightarrow> wl_shell \<Rightarrow> fault + int \<times> wl_shell" where
  "reset_shell_surface_type shsurf s =
     (case type (shsurfs s shsurf) of
        SHELL_SURFACE_FULLSCREEN \<Rightarrow>
          (case shell_unset_fullscreen shsurf s of
             Inl f \<Rightarrow> Inl f
           | Inr s1 \<Rightarrow> Inr (0, update_shsurf shsurf (\<lambda>h. h\<lparr>type := SHELL_SURFACE_NONE\<rparr>) s1))
      | SHELL_SURFACE_MAXIMIZED \<Rightarrow>
          (let s1 = update_shsurf shsurf
                      (\<lambda>h. h\<lparr>shsurf_output := Some (get_default_output s)\<rparr>) s;
               s2 = weston_surface_set_position (surface (shsurfs s1 shsurf))
                      (real_of_int (saved_x (shsurfs s1 shsurf)))
                      (real_of_int (saved_y (shsurfs s1 shsurf))) s1
           in Inr (0, update_shsurf shsurf (\<lambda>h. h\<lparr>type := SHELL_SURFACE_NONE\<rparr>) s2))
      | SHELL_SURFACE_PANEL \<Rightarrow>
          Inr (0, update_shsurf shsurf (\<lambda>h. h\<lparr>type := SHELL_SURFACE_NONE\<rparr>)
                    (unlink_shsurf shsurf s))
      | SHELL_SURFACE_BACKGROUND \<Rightarrow>
          Inr (0, update_shsurf shsurf (\<lambda>h. h\<lparr>type := SHELL_SURFACE_NONE\<rparr>)
                    (unlink_shsurf shsurf s))
      | SHELL_SURFACE_SCREENSAVER \<Rightarrow>
          Inr (- 1, emit (Post_error (Shsurf_resource shsurf) WL_DISPLAY_ERROR_INVALID_METHOD
                            ''cannot reassign surface type'') s)
      | SHELL_SURFACE_LOCK \<Rightarrow>
          Inr (- 1, emit (Post_error (Shsurf_resource shsurf) WL_DISPLAY_ERROR_INVALID_METHOD
                            ''cannot reassign surface type'') s)
      | SHELL_SURFACE_NONE \<Rightarrow>
          Inr (0, update_shsurf shsurf (\<lambda>h. h\<lparr>type := SHELL_SURFACE_NONE\<rparr>) s)
      | SHELL_SURFACE_TOPLEVEL \<Rightarrow>
          Inr (0, update_shsurf shsurf (\<lambda>h. h\<lparr>type := SHELL_SURFACE_NONE\<rparr>) s)
      | SHELL_SURFACE_TRANSIENT \<Rightarrow>
          Inr (0, update_shsurf shsurf (\<lambda>h. h\<lparr>type := SHELL_SURFACE_NONE\<rparr>) s)
      | SHELL_SURFACE_POPUP \<Rightarrow>
          Inr (0, update_shsurf shsurf (\<lambda>h. h\<lparr>type := SHELL_SURFACE_NONE\<rparr>) s))"

definition shell_surface_set_toplevel :: "shsurf_id \<Rightarrow> wl_shell \<Rightarrow> fault + wl_shell" where
  "shell_surface_set_toplevel shsurf s =
     (case reset_shell_surface_type shsurf s of
        Inl f \<Rightarrow> Inl f
      | Inr (r, s1) \<Rightarrow>
          if r \<noteq> 0 then Inr s1
          else Inr (update_shsurf shsurf (\<lambda>h. h\<lparr>type := SHELL_SURFACE_TOPLEVEL\<rparr>) s1))"

definition shell_surface_set_transient ::
  "shsurf_id \<Rightarrow> shsurf_id \<Rightarrow> int \<Rightarrow> int \<Rightarrow> 32 word \<Rightarrow> wl_shell \<Rightarrow> fault + wl_shell" where
  "shell_surface_set_transient shsurf pshsurf x y flags s =
     (let es = surface (shsurfs s shsurf);
          pes = surface (shsurfs s pshsurf)
      in case reset_shell_surface_type shsurf s of
           Inl f \<Rightarrow> Inl f
         | Inr (r, s1) \<Rightarrow>
             if r \<noteq> 0 then Inr s1
             else
               let s2 = update_shsurf shsurf
                          (\<lambda>h. h\<lparr>shsurf_output := surface_output (surfaces s1 pes)\<rparr>) s1;
                   s3 = weston_surface_set_position es
                          (geometry_x (surfaces s2 pes) + real_of_int x)
                          (geometry_y (surfaces s2 pes) + real_of_int y) s2
               in Inr (update_shsurf shsurf (\<lambda>h. h\<lparr>type := SHELL_SURFACE_TRANSIENT\<rparr>) s3))"

text \<open>
  \<^verbatim>\<open>get_output_panel_height\<close>: the height of the first panel of the list bound to the
  output.
\<close>

fun panel_height_loop :: "wl_shell \<Rightarrow> output_id \<Rightarrow> shsurf_id list \<Rightarrow> int" where
  "panel_height_loop s output [] = 0"
| "panel_height_loop s output (priv # rest) =
     (if shsurf_output (shsurfs s priv) = Some output
        then geometry_height (surfaces s (surface (shsurfs s priv)))
      else panel_height_loop s output rest)"

definition get_output_panel_height :: "wl_shell \<Rightarrow> output_id option \<Rightarrow> int" where
  "get_output_panel_height s output =
     (case output of None \<Rightarrow> 0 | Some out \<Rightarrow> panel_height_loop s out (panels s))"

text \<open>
  \<^verbatim>\<open>shell_surface_set_maximized\<close>. \<open>time\<close> is \<^verbatim>\<open>weston_compositor_get_time ()\<close>. The
  configure event reads the mode of \<^verbatim>\<open>es->output\<close>, which is \<^verbatim>\<open>NULL\<close> until the
  compositor has assigned the surface an output. The height is computed in
  \<^verbatim>\<open>uint32_t\<close>, the type of \<^verbatim>\<open>panel_height\<close>, and passed as \<^verbatim>\<open>int32_t\<close>.
\<close>

definition shell_surface_set_maximized ::
  "32 word \<Rightarrow> shsurf_id \<Rightarrow> output_id option \<Rightarrow> wl_shell \<Rightarrow> fault + wl_shell" where
  "shell_surface_set_maximized time shsurf output_resource s =
     (let es = surface (shsurfs s shsurf);
          s0 = update_shsurf shsurf
                 (\<lambda>h. h\<lparr>shsurf_output :=
                           (case output_resource of
                              Some output \<Rightarrow> Some output
                            | None \<Rightarrow> Some (get_default_output s))\<rparr>) s
      in case reset_shell_surface_type shsurf s0 of
           Inl f \<Rightarrow> Inl f
         | Inr (r, s1) \<Rightarrow>
             if r \<noteq> 0 then Inr s1
             else
               case GLfloat_to_int32 (geometry_x (surfaces s1 es)) of
                 Inl f \<Rightarrow> Inl f
               | Inr x \<Rightarrow>
                   case GLfloat_to_int32 (geometry_y (surfaces s1 es)) of
                     Inl f \<Rightarrow> Inl f
                   | Inr y \<Rightarrow>
                       let s2 = update_shsurf shsurf
                                  (\<lambda>h. h\<lparr>saved_x := x, saved_y := y,
                                          saved_position_valid := True\<rparr>) s1;
                           panel_height =
                             get_output_panel_height s2 (surface_output (surfaces s2 es));
                           edges = WL_SHELL_SURFACE_RESIZE_TOP OR WL_SHELL_SURFACE_RESIZE_LEFT
                       in case surface_output (surfaces s2 es) of
                            None \<Rightarrow> Inl Null_dereference
                          | Some output \<Rightarrow>
                              Inr (update_shsurf shsurf
                                     (\<lambda>h. h\<lparr>type := SHELL_SURFACE_MAXIMIZED\<rparr>)
                                     (emit (Shell_surface_send_configure shsurf time edges
                                              (current_width (outputs s2 output))
                                              (int32 (current_height (outputs s2 output) -
                                                      panel_height))) s2)))"

definition shell_surface_set_fullscreen ::
  "32 word \<Rightarrow> shsurf_id \<Rightarrow> 32 word \<Rightarrow> 32 word \<Rightarrow> output_id option \<Rightarrow> wl_shell \<Rightarrow> fault + wl_shell" where
  "shell_surface_set_fullscreen time shsurf method framerate output_resource s =
     (let es = surface (shsurfs s shsurf);
          s0 = update_shsurf shsurf
                 (\<lambda>h. h\<lparr>shsurf_output :=
                           (case output_resource of
                              Some output \<Rightarrow> Some output
                            | None \<Rightarrow> Some (get_default_output s))\<rparr>) s
      in case reset_shell_surface_type shsurf s0 of
           Inl f \<Rightarrow> Inl f
         | Inr (r, s1) \<Rightarrow>
             if r \<noteq> 0 then Inr s1
             else
               let s2 = update_shsurf shsurf
                          (\<lambda>h. h\<lparr>fullscreen_output := shsurf_output h,
                                  fullscreen_type := method,
                                  fullscreen_framerate := framerate,
                                  type := SHELL_SURFACE_FULLSCREEN\<rparr>) s1
               in case GLfloat_to_int32 (geometry_x (surfaces s2 es)) of
                    Inl f \<Rightarrow> Inl f
                  | Inr x \<Rightarrow>
                      case GLfloat_to_int32 (geometry_y (surfaces s2 es)) of
                        Inl f \<Rightarrow> Inl f
                      | Inr y \<Rightarrow>
                          let s3 = update_shsurf shsurf
                                     (\<lambda>h. h\<lparr>saved_x := x, saved_y := y,
                                             saved_position_valid := True\<rparr>) s2;
                              s4 = (if surface_output (surfaces s3 es) \<noteq> None
                                      then update_surface es
                                             (\<lambda>g. g\<lparr>force_configure := True\<rparr>) s3
                                    else s3)
                          in case shsurf_output (shsurfs s4 shsurf) of
                               None \<Rightarrow> Inl Null_dereference
                             | Some output \<Rightarrow>
                                 Inr (emit (Shell_surface_send_configure shsurf time 0
                                              (current_width (outputs s4 output))
                                              (current_height (outputs s4 output))) s4))"

definition shell_surface_set_popup ::
  "shsurf_id \<Rightarrow> device_id \<Rightarrow> 32 word \<Rightarrow> shsurf_id \<Rightarrow> int \<Rightarrow> int \<Rightarrow> 32 word \<Rightarrow> wl_shell \<Rightarrow> wl_shell" where
  "shell_surface_set_popup shsurf input_device time parent_resource x y flags s =
     update_shsurf shsurf
       (\<lambda>h. h\<lparr>type := SHELL_SURFACE_POPUP, parent := Some parent_resource,
               popup_x := x, popup_y := y\<rparr>) s"

text \<open>
  The role requests of \<^verbatim>\<open>shell_surface_implementation\<close>, the table through which a
  client reaches the five functions above, and their dispatch.
\<close>

datatype role_request =
    Set_toplevel
  | Set_transient shsurf_id int int "32 word"
  | Set_fullscreen "32 word" "32 word" "output_id option"
  | Set_popup device_id "32 word" shsurf_id int int "32 word"
  | Set_maximized "output_id option"

fun shell_surface_implementation ::
  "32 word \<Rightarrow> shsurf_id \<Rightarrow> role_request \<Rightarrow> wl_shell \<Rightarrow> fault + wl_shell" where
  "shell_surface_implementation now shsurf Set_toplevel s =
     shell_surface_set_toplevel shsurf s"
| "shell_surface_implementation now shsurf (Set_transient p x y flags) s =
     shell_surface_set_transient shsurf p x y flags s"
| "shell_surface_implementation now shsurf (Set_fullscreen method framerate output) s =
     shell_surface_set_fullscreen now shsurf method framerate output s"
| "shell_surface_implementation now shsurf (Set_popup dev time p x y flags) s =
     Inr (shell_surface_set_popup shsurf dev time p x y flags s)"
| "shell_surface_implementation now shsurf (Set_maximized output) s =
     shell_surface_set_maximized now shsurf output s"

subsection \<open>Screensaver process and surfaces\<close>

text \<open>
  \<^verbatim>\<open>weston_client_launch\<close> returns the new client and stores the pid of the child in the
  process record, or returns \<^verbatim>\<open>NULL\<close>; its result is the argument \<open>launched\<close>.
\<close>

definition handle_screensaver_sigchld :: "wl_shell \<Rightarrow> wl_shell" where
  "handle_screensaver_sigchld s = s\<lparr>screensaver_pid := 0\<rparr>"

definition launch_screensaver :: "(client_id \<times> int) option \<Rightarrow> wl_shell \<Rightarrow> wl_shell" where
  "launch_screensaver launched s =
     (if screensaver_binding s \<noteq> None then s
      else case screensaver_path s of
             None \<Rightarrow> s
           | Some path \<Rightarrow>
               if screensaver_pid s \<noteq> 0 then emit (Log ''old screensaver still running'') s
               else
                 let s1 = emit (Client_launch path) s
                 in case launched of
                      None \<Rightarrow> s1
                    | Some (client, pid) \<Rightarrow> s1\<lparr>screensaver_pid := pid\<rparr>)"

definition terminate_screensaver :: "wl_shell \<Rightarrow> wl_shell" where
  "terminate_screensaver s =
     (if screensaver_pid s = 0 then s else emit (Kill_SIGTERM (screensaver_pid s)) s)"

text \<open>
  A surface's \<^verbatim>\<open>layer_link\<close> is on the surface list of one layer, or on none:
  removing it takes the surface out of every list, inserting it after another surface
  acts on the list that surface is on.
\<close>

definition show_screensaver :: "shsurf_id \<Rightarrow> wl_shell \<Rightarrow> wl_shell" where
  "show_screensaver shsurf s =
     (let es = surface (shsurfs s shsurf);
          removed = (\<lambda>l. wl_list_remove es (layer_surfaces s l));
          s1 = (case lock_surface s of
                  Some ls \<Rightarrow>
                    s\<lparr>layer_surfaces := (\<lambda>l. wl_list_insert (surface (shsurfs s ls)) es (removed l))\<rparr>
                | None \<Rightarrow>
                    s\<lparr>layer_surfaces := removed(lock_layer := wl_list_insert_head es (removed lock_layer))\<rparr>);
          s2 = update_surface es (\<lambda>g. g\<lparr>surface_output := shsurf_output (shsurfs s1 shsurf)\<rparr>) s1
      in emit (Surface_damage es) s2)"

definition hide_screensaver :: "shsurf_id \<Rightarrow> wl_shell \<Rightarrow> wl_shell" where
  "hide_screensaver shsurf s =
     (let es = surface (shsurfs s shsurf);
          s1 = s\<lparr>layer_surfaces := (\<lambda>l. wl_list_remove es (layer_surfaces s l))\<rparr>
      in update_surface es (\<lambda>g. g\<lparr>surface_output := None\<rparr>) s1)"

subsection \<open>Lock orchestration\<close>

definition resume_desktop :: "wl_shell \<Rightarrow> wl_shell" where
  "resume_desktop s =
     (let s1 = fold hide_screensaver (screensaver_surfaces s) s;
          s2 = terminate_screensaver s1;
          s3 = s2\<lparr>layer_list := wl_list_remove lock_layer (layer_list s2)\<rparr>;
          s4 = s3\<lparr>layer_list := wl_list_insert cursor_layer fullscreen_layer (layer_list s3)\<rparr>;
          s5 = s4\<lparr>layer_list := wl_list_insert fullscreen_layer panel_layer (layer_list s4)\<rparr>;
          s6 = s5\<lparr>layer_list := wl_list_insert panel_layer toplevel_layer (layer_list s5)\<rparr>;
          s7 = emit Compositor_repick (s6\<lparr>locked := False\<rparr>);
          s8 = emit Compositor_wake (s7\<lparr>idle_time := option_idle_time s7\<rparr>)
      in emit Compositor_damage_all s8)"

definition desktop_shell_unlock :: "wl_shell \<Rightarrow> wl_shell" where
  "desktop_shell_unlock s =
     (let s1 = s\<lparr>prepare_event_sent := False\<rparr>
      in if locked s1 then resume_desktop s1 else s1)"

text \<open>
  \<^verbatim>\<open>lock\<close>. \<open>time\<close> is \<^verbatim>\<open>weston_compositor_get_time ()\<close>, \<open>launched\<close> the result of
  launching the screensaver.
\<close>

definition lock :: "32 word \<Rightarrow> (client_id \<times> int) option \<Rightarrow> wl_shell \<Rightarrow> wl_shell" where
  "lock time launched s =
     (if locked s then
        fold (\<lambda>output s'. if has_set_dpms (outputs s' output)
                            then emit (Set_dpms_standby output) s' else s')
          (output_list s) s
      else
        let s1 = s\<lparr>locked := True\<rparr>;
            s2 = s1\<lparr>layer_list := wl_list_remove panel_layer (layer_list s1)\<rparr>;
            s3 = s2\<lparr>layer_list := wl_list_remove toplevel_layer (layer_list s2)\<rparr>;
            s4 = s3\<lparr>layer_list := wl_list_remove fullscreen_layer (layer_list s3)\<rparr>;
            s5 = s4\<lparr>layer_list := wl_list_insert cursor_layer lock_layer (layer_list s4)\<rparr>;
            s6 = launch_screensaver launched s5;
            s7 = fold show_screensaver (screensaver_surfaces s6) s6;
            s8 = (if screensaver_surfaces s7 \<noteq> []
                    then emit Compositor_state_idle
                           (emit Compositor_wake (s7\<lparr>idle_time := screensaver_duration s7\<rparr>))
                  else s7);
            s9 = emit Compositor_repick s8
        in fold (\<lambda>device s'. emit (Set_keyboard_focus_null device time) s')
             (input_device_list s9) s9)"

definition unlock :: "wl_shell \<Rightarrow> wl_shell" where
  "unlock s =
     (if \<not> locked s \<or> lock_surface s \<noteq> None then emit Compositor_wake s
      else case child_desktop_shell s of
             None \<Rightarrow> resume_desktop s
           | Some r \<Rightarrow>
               if prepare_event_sent s then s
               else (emit (Send_prepare_lock_surface r) s)\<lparr>prepare_event_sent := True\<rparr>)"

definition handle_lock_surface_destroy :: "wl_shell \<Rightarrow> wl_shell" where
  "handle_lock_surface_destroy s = (emit (Log ''lock surface gone'') s)\<lparr>lock_surface := None\<rparr>"

definition desktop_shell_set_lock_surface :: "shsurf_id \<Rightarrow> wl_shell \<Rightarrow> fault + wl_shell" where
  "desktop_shell_set_lock_surface shsurf s =
     (case reset_shell_surface_type shsurf s of
        Inl f \<Rightarrow> Inl f
      | Inr (r, s1) \<Rightarrow>
          if r \<noteq> 0 then Inr s1
          else
            let s2 = s1\<lparr>prepare_event_sent := False\<rparr>
            in if \<not> locked s2 then Inr s2
               else Inr (update_shsurf shsurf (\<lambda>h. h\<lparr>type := SHELL_SURFACE_LOCK\<rparr>)
                           (s2\<lparr>lock_surface := Some shsurf\<rparr>)))"

definition screensaver_set_surface :: "shsurf_id \<Rightarrow> output_id \<Rightarrow> wl_shell \<Rightarrow> fault + wl_shell" where
  "screensaver_set_surface shsurf output s =
     (case reset_shell_surface_type shsurf s of
        Inl f \<Rightarrow> Inl f
      | Inr (r, s1) \<Rightarrow>
          if r \<noteq> 0 then Inr s1
          else
            let s2 = update_shsurf shsurf
                       (\<lambda>h. h\<lparr>type := SHELL_SURFACE_SCREENSAVER,
                               fullscreen_output := Some output,
                               shsurf_output := Some output\<rparr>) s1
            in Inr (s2\<lparr>screensaver_surfaces :=
                          wl_list_insert_tail shsurf (screensaver_surfaces s2)\<rparr>))"

subsection \<open>Privileged bindings\<close>

text \<open>
  \<^verbatim>\<open>wl_client_add_object\<close> creates the resource \<open>Client_object client id\<close>; the binding
  client is never \<^verbatim>\<open>NULL\<close>, the recorded helper client may be.
\<close>

definition unbind_desktop_shell :: "wl_shell \<Rightarrow> wl_shell" where
  "unbind_desktop_shell s =
     (let s1 = (if locked s then resume_desktop s else s)
      in s1\<lparr>child_desktop_shell := None, prepare_event_sent := False\<rparr>)"

definition bind_desktop_shell :: "client_id \<Rightarrow> 32 word \<Rightarrow> wl_shell \<Rightarrow> wl_shell" where
  "bind_desktop_shell client obj_id s =
     (let resource = Client_object client obj_id
      in if Some client = child_client s then s\<lparr>child_desktop_shell := Some resource\<rparr>
         else emit (Resource_destroy resource)
                (emit (Post_error resource WL_DISPLAY_ERROR_INVALID_OBJECT
                         ''permission to bind desktop_shell denied'') s))"

definition unbind_screensaver :: "wl_shell \<Rightarrow> wl_shell" where
  "unbind_screensaver s = s\<lparr>screensaver_binding := None\<rparr>"

definition bind_screensaver :: "client_id \<Rightarrow> 32 word \<Rightarrow> wl_shell \<Rightarrow> wl_shell" where
  "bind_screensaver client obj_id s =
     (let resource = Client_object client obj_id
      in if screensaver_binding s = None then s\<lparr>screensaver_binding := Some resource\<rparr>
         else emit (Resource_destroy resource)
                (emit (Post_error resource WL_DISPLAY_ERROR_INVALID_OBJECT
                         ''interface object already bound'') s))"

subsection \<open>Helper supervision\<close>

definition launch_desktop_shell_process :: "(client_id \<times> int) option \<Rightarrow> wl_shell \<Rightarrow> int \<times> wl_shell" where
  "launch_desktop_shell_process launched s =
     (let s1 = emit (Client_launch ''LIBEXECDIR/weston-desktop-shell'') s
      in case launched of
           None \<Rightarrow> (- 1, s1\<lparr>child_client := None\<rparr>)
         | Some (client, pid) \<Rightarrow> (0, s1\<lparr>child_client := Some client, child_pid := pid\<rparr>))"

text \<open>
  \<^verbatim>\<open>desktop_shell_sigchld\<close>, run when the helper process has exited. \<open>time\<close> is
  \<^verbatim>\<open>weston_compositor_get_time ()\<close>, in milliseconds.
\<close>

definition desktop_shell_sigchld :: "32 word \<Rightarrow> (client_id \<times> int) option \<Rightarrow> wl_shell \<Rightarrow> wl_shell" where
  "desktop_shell_sigchld time launched s =
     (let s1 = s\<lparr>child_pid := 0, child_client := None\<rparr>;
          s2 = (if time - child_deathstamp s1 > 30000
                  then s1\<lparr>child_deathstamp := time, child_deathcount := 0\<rparr>
                else s1);
          s3 = s2\<lparr>child_deathcount := child_deathcount s2 + 1\<rparr>
      in if child_deathcount s3 > 5
           then emit (Log ''weston-desktop-shell died, giving up.'') s3
         else snd (launch_desktop_shell_process launched
                     (emit (Log ''weston-desktop-shell died, respawning...'') s3)))"

text \<open>
  A run of helper deaths: each with the time of the exit and the result of the launch
  that the handler may attempt.
\<close>

fun helper_deaths :: "(32 word \<times> (client_id \<times> int) option) list \<Rightarrow> wl_shell \<Rightarrow> wl_shell" where
  "helper_deaths [] s = s"
| "helper_deaths ((time, launched) # rest) s =
     helper_deaths rest (desktop_shell_sigchld time launched s)"

definition helper_launches :: "wl_shell \<Rightarrow> nat" where
  "helper_launches s = length (filter (\<lambda>e. e = Client_launch ''LIBEXECDIR/weston-desktop-shell'') (trace s))"

subsection \<open>Rotate grab\<close>

text \<open>
  Modelled from the spec: \<^verbatim>\<open>weston_matrix_init\<close> of the compositor resets a matrix, sixteen
  floats in column-major order, to the identity. The floats are real numbers here.
\<close>

definition weston_matrix_init :: weston_matrix where
  "weston_matrix_init = [1, 0, 0, 0,  0, 1, 0, 0,  0, 0, 1, 0,  0, 0, 0, 1]"

text \<open>
  \<^verbatim>\<open>rotate_grab_motion\<close>: the grab after the motion and the state. \<open>multiply\<close> and
  \<open>translate\<close> are the compositor's \<^verbatim>\<open>weston_matrix_multiply\<close> and
  \<^verbatim>\<open>weston_matrix_translate\<close>.
\<close>

definition rotate_grab_motion ::
  "(weston_matrix \<Rightarrow> weston_matrix \<Rightarrow> weston_matrix) \<Rightarrow>
   (weston_matrix \<Rightarrow> real \<Rightarrow> real \<Rightarrow> real \<Rightarrow> weston_matrix) \<Rightarrow>
   rotate_grab \<Rightarrow> device_id \<Rightarrow> 32 word \<Rightarrow> wl_shell \<Rightarrow> rotate_grab \<times> wl_shell" where
  "rotate_grab_motion multiply translate grab device time s =
     (let d = input_devices s device;
          shsurf = rotate_surface grab;
          es = surface (shsurfs s shsurf);
          cx = 0.5 * real_of_int (geometry_width (surfaces s es));
          cy = 0.5 * real_of_int (geometry_height (surfaces s es));
          dx = real_of_int (device_x d - center_x grab);
          dy = real_of_int (device_y d - center_y grab);
          r = sqrt (dx * dx + dy * dy);
          s1 = update_surface es
                 (\<lambda>g. g\<lparr>transformation_list :=
                           wl_list_remove rotation_transform (transformation_list g),
                         geometry_dirty := True\<rparr>) s
      in if r > 20 then
           let d0 = dx / r;
               d4 = - dy / r;
               rotation = weston_matrix_init[0 := d0, 4 := d4, 1 := - d4, 5 := d0];
               m1 = translate weston_matrix_init (- cx) (- cy) 0;
               m2 = multiply m1 (rotation_rotation (shsurfs s1 shsurf));
               m3 = multiply m2 rotation;
               m4 = translate m3 cx cy 0;
               s2 = update_shsurf shsurf (\<lambda>h. h\<lparr>rotation_transform_matrix := m4\<rparr>) s1;
               s3 = update_surface es
                      (\<lambda>g. g\<lparr>transformation_list :=
                                wl_list_insert_head rotation_transform (transformation_list g)\<rparr>) s2
           in (grab\<lparr>rotate_rotation := rotation\<rparr>, emit Compositor_schedule_repaint s3)
         else
           let s2 = update_shsurf shsurf (\<lambda>h. h\<lparr>rotation_rotation := weston_matrix_init\<rparr>) s1
           in (grab\<lparr>rotate_rotation := weston_matrix_init\<rparr>, emit Compositor_schedule_repaint s2))"

subsection \<open>Creation of shell surfaces and of the shell\<close>

text \<open>
  \<^verbatim>\<open>get_shell_surface\<close> finds the shell surface whose destroy listener is on the
  surface: the live shell surface that points to it.
\<close>

definition get_shell_surface :: "wl_shell \<Rightarrow> surface_id \<Rightarrow> shsurf_id option" where
  "get_shell_surface s es = find (\<lambda>i. surface (shsurfs s i) = es) (live_shsurfs s)"

definition calloc_shell_surface :: shell_surface where
  "calloc_shell_surface =
     \<lparr>surface = 0, parent = None, type = SHELL_SURFACE_NONE, saved_x = 0, saved_y = 0,
      saved_position_valid = False, rotation_rotation = replicate 16 0,
      rotation_transform_matrix = replicate 16 0, popup_x = 0, popup_y = 0,
      fullscreen_type = 0, fullscreen_framerate = 0, black_surface = None,
      fullscreen_output = None, shsurf_output = None\<rparr>"

text \<open>
  \<^verbatim>\<open>shell_get_shell_surface\<close>. \<open>calloc\<close> is the handle of the fresh record, or \<open>None\<close>
  when the allocation fails; \<open>resource\<close> is the \<^verbatim>\<open>wl_shell\<close> resource of the request, and
  the resource of the surface \<open>es\<close> is the one the surface embeds.
\<close>

definition shell_get_shell_surface ::
  "shsurf_id option \<Rightarrow> resource \<Rightarrow> surface_id \<Rightarrow> wl_shell \<Rightarrow> wl_shell" where
  "shell_get_shell_surface calloc resource es s =
     (if get_shell_surface s es \<noteq> None
        then emit (Post_error (Surface_resource es) WL_DISPLAY_ERROR_INVALID_OBJECT
                     ''wl_shell::get_shell_surface already requested'') s
      else case calloc of
             None \<Rightarrow> emit (Post_no_memory resource) s
           | Some shsurf \<Rightarrow>
               s\<lparr>shsurfs := (shsurfs s)
                    (shsurf := calloc_shell_surface
                       \<lparr>saved_position_valid := False, surface := es,
                        fullscreen_type := WL_SHELL_SURFACE_FULLSCREEN_METHOD_DEFAULT,
                        fullscreen_framerate := 0, black_surface := None,
                        rotation_rotation := weston_matrix_init,
                        type := SHELL_SURFACE_NONE\<rparr>),
                 live_shsurfs := live_shsurfs s @ [shsurf]\<rparr>)"

text \<open>
  The part of \<^verbatim>\<open>struct weston_compositor\<close> that the shell uses.
\<close>

record weston_compositor =
  ec_layer_list :: "layer list"
  ec_layer_surfaces :: "layer \<Rightarrow> surface_id list"
  ec_output_list :: "output_id list"
  ec_output_list_head :: output_id
  ec_outputs :: "output_id \<Rightarrow> weston_output"
  ec_input_device_list :: "device_id list"
  ec_input_devices :: "device_id \<Rightarrow> wl_input_device"
  ec_idle_time :: int
  ec_option_idle_time :: int
  ec_surfaces :: "surface_id \<Rightarrow> weston_surface"

text \<open>
  \<^verbatim>\<open>weston_layer_init (&layer, below)\<close> empties the surface list of the layer and
  inserts the layer after \<open>below\<close>.
\<close>

definition weston_layer_init :: "layer \<Rightarrow> layer \<Rightarrow> wl_shell \<Rightarrow> wl_shell" where
  "weston_layer_init l below s =
     s\<lparr>layer_surfaces := (layer_surfaces s)(l := []),
       layer_list := wl_list_insert below l (layer_list s)\<rparr>"

text \<open>
  \<^verbatim>\<open>shell_init\<close>: \<open>None\<close> is the return value \<^verbatim>\<open>-1\<close>. \<open>resources_ok\<close> says whether
  \<^verbatim>\<open>malloc\<close> and the three \<^verbatim>\<open>wl_display_add_global\<close> succeed; \<open>path\<close> and \<open>duration\<close>
  are what \<^verbatim>\<open>shell_configuration\<close> reads from the configuration file.
\<close>

definition shell_init ::
  "weston_compositor \<Rightarrow> bool \<Rightarrow> string option \<Rightarrow> int \<Rightarrow> 32 word \<Rightarrow>
   (client_id \<times> int) option \<Rightarrow> wl_shell option" where
  "shell_init ec resources_ok path duration time launched =
     (if \<not> resources_ok then None
      else
        let s0 = \<lparr>layer_list = ec_layer_list ec,
                  layer_surfaces = ec_layer_surfaces ec,
                  output_list = ec_output_list ec,
                  output_list_head = ec_output_list_head ec,
                  outputs = ec_outputs ec,
                  input_device_list = ec_input_device_list ec,
                  input_devices = ec_input_devices ec,
                  idle_time = ec_idle_time ec,
                  option_idle_time = ec_option_idle_time ec,
                  surfaces = ec_surfaces ec,
                  child_pid = 0,
                  child_client = None,
                  child_desktop_shell = None,
                  child_deathcount = 0,
                  child_deathstamp = 0,
                  locked = False,
                  prepare_event_sent = False,
                  lock_surface = None,
                  backgrounds = [],
                  panels = [],
                  screensaver_path = None,
                  screensaver_duration = 0,
                  screensaver_binding = None,
                  screensaver_surfaces = [],
                  screensaver_pid = 0,
                  shsurfs = (\<lambda>i. calloc_shell_surface),
                  live_shsurfs = [],
                  trace = []\<rparr>;
            s1 = weston_layer_init fullscreen_layer cursor_layer s0;
            s2 = weston_layer_init panel_layer fullscreen_layer s1;
            s3 = weston_layer_init toplevel_layer panel_layer s2;
            s4 = weston_layer_init background_layer toplevel_layer s3;
            s5 = s4\<lparr>layer_surfaces := (layer_surfaces s4)(lock_layer := [])\<rparr>;
            s6 = s5\<lparr>screensaver_path := path, screensaver_duration := duration\<rparr>;
            s7 = s6\<lparr>child_deathstamp := time\<rparr>
        in case launch_desktop_shell_process launched s7 of
             (r, s8) \<Rightarrow> if r \<noteq> 0 then None else Some s8)"

subsection \<open>Reachable states\<close>

text \<open>
  A compositor hands the shell a layer list that holds its cursor layer once and none
  of the shell's own layers.
\<close>

definition compositor_ok :: "weston_compositor \<Rightarrow> bool" where
  "compositor_ok ec \<longleftrightarrow>
     distinct (ec_layer_list ec) \<and> cursor_layer \<in> set (ec_layer_list ec) \<and>
     set (ec_layer_list ec) \<inter>
       {fullscreen_layer, panel_layer, toplevel_layer, background_layer, lock_layer} = {}"

text \<open>
  The states of the shell: the one \<^verbatim>\<open>shell_init\<close> returns, and the state after any
  entry point that returns when run in a reachable state. The entry points modelled
  above have a rule each. The others (\<^verbatim>\<open>map\<close>, \<^verbatim>\<open>configure\<close>, \<^verbatim>\<open>activate\<close>, the grab callbacks, the key
  bindings, the background and panel requests, the destruction of a shell surface)
  assign neither \<^verbatim>\<open>shell->locked\<close> nor the link of a layer: only \<^verbatim>\<open>lock\<close> and
  \<^verbatim>\<open>resume_desktop\<close> do. The last rule stands for them.
\<close>

inductive reachable :: "wl_shell \<Rightarrow> bool" where
  reachable_init:
    "compositor_ok ec \<Longrightarrow> shell_init ec ok path duration time launched = Some s \<Longrightarrow> reachable s"
| reachable_lock:
    "reachable s \<Longrightarrow> reachable (lock time launched s)"
| reachable_unlock:
    "reachable s \<Longrightarrow> reachable (unlock s)"
| reachable_desktop_shell_unlock:
    "reachable s \<Longrightarrow> reachable (desktop_shell_unlock s)"
| reachable_unbind_desktop_shell:
    "reachable s \<Longrightarrow> reachable (unbind_desktop_shell s)"
| reachable_bind_desktop_shell:
    "reachable s \<Longrightarrow> reachable (bind_desktop_shell client obj_id s)"
| reachable_bind_screensaver:
    "reachable s \<Longrightarrow> reachable (bind_screensaver client obj_id s)"
| reachable_unbind_screensaver:
    "reachable s \<Longrightarrow> reachable (unbind_screensaver s)"
| reachable_set_lock_surface:
    "reachable s \<Longrightarrow> desktop_shell_set_lock_surface shsurf s = Inr s' \<Longrightarrow> reachable s'"
| reachable_lock_surface_destroy:
    "reachable s \<Longrightarrow> reachable (handle_lock_surface_destroy s)"
| reachable_screensaver_set_surface:
    "reachable s \<Longrightarrow> screensaver_set_surface shsurf output s = Inr s' \<Longrightarrow> reachable s'"
| reachable_screensaver_sigchld:
    "reachable s \<Longrightarrow> reachable (handle_screensaver_sigchld s)"
| reachable_desktop_shell_sigchld:
    "reachable s \<Longrightarrow> reachable (desktop_shell_sigchld time launched s)"
| reachable_get_shell_surface:
    "reachable s \<Longrightarrow> reachable (shell_get_shell_surface calloc resource es s)"
| reachable_role_request:
    "reachable s \<Longrightarrow> shell_surface_implementation now shsurf request s = Inr s' \<Longrightarrow> reachable s'"
| reachable_resize:
    "reachable s \<Longrightarrow> reachable (shell_surface_resize malloc_ok shsurf wd time edges s)"
| reachable_resize_motion:
    "reachable s \<Longrightarrow> reachable (resize_grab_motion from_global resize device time s)"
| reachable_rotate_motion:
    "reachable s \<Longrightarrow> reachable (snd (rotate_grab_motion multiply translate grab device time s))"
| reachable_other:
    "reachable s \<Longrightarrow> layer_list s' = layer_list s \<Longrightarrow> locked s' = locked s \<Longrightarrow> reachable s'"

text \<open>
  A small compositor on which the model is evaluated: a fade layer above the cursor
  layer, one output of 1920 by 1080, one input device, surfaces of 100 by 100 at the
  origin.
\<close>

definition example_compositor :: weston_compositor where
  "example_compositor =
     \<lparr>ec_layer_list = [compositor_layer 0, cursor_layer],
      ec_layer_surfaces = (\<lambda>l. []),
      ec_output_list = [0],
      ec_output_list_head = 99,
      ec_outputs = (\<lambda>output. \<lparr>output_x = 0, output_y = 0, current_width = 1920,
                               current_height = 1080, has_set_dpms = True\<rparr>),
      ec_input_device_list = [0],
      ec_input_devices = (\<lambda>d. \<lparr>button_count = 0, grab_time = 0, grab_x = 0, grab_y = 0,
                                device_x = 0, device_y = 0, pointer_focus = None,
                                pointer_grab = default_pointer_grab\<rparr>),
      ec_idle_time = 300,
      ec_option_idle_time = 300,
      ec_surfaces = (\<lambda>es. \<lparr>geometry_x = 0, geometry_y = 0, geometry_width = 100,
                            geometry_height = 100, geometry_dirty = False,
                            transformation_list = [], surface_output = None,
                            force_configure = False\<rparr>)\<rparr>"

text \<open>
  The shell right after \<^verbatim>\<open>shell_init\<close> on that compositor at time 1000, the helper
  launched as client 7 with pid 4242 and no screensaver configured.
\<close>

definition example_shell :: wl_shell where
  "example_shell = the (shell_init example_compositor True None 60 1000 (Some (7, 4242)))"

text \<open>
  The shape of the global layer order: the cursor layer, followed by the lock layer when
  the shell is locked and by the fullscreen, panel and toplevel layers when it is not;
  no other occurrence of these five layers.
\<close>

definition layers_inv :: "wl_shell \<Rightarrow> bool" where
  "layers_inv s \<longleftrightarrow>
     (\<exists>upper lower.
        distinct (upper @ lower) \<and>
        set (upper @ lower) \<inter>
          {cursor_layer, fullscreen_layer, panel_layer, toplevel_layer, lock_layer} = {} \<and>
        layer_list s =
          upper @ cursor_layer #
            (if locked s then [lock_layer] else [fullscreen_layer, panel_layer, toplevel_layer]) @
            lower)"

text \<open>
  A client's requests on one shell surface, in order; a fault ends the run.
\<close>

fun role_requests :: "32 word \<Rightarrow> shsurf_id \<Rightarrow> role_request list \<Rightarrow> wl_shell \<Rightarrow> fault + wl_shell" where
  "role_requests now shsurf [] s = Inr s"
| "role_requests now shsurf (request # rest) s =
     (case shell_surface_implementation now shsurf request s of
        Inl f \<Rightarrow> Inl f
      | Inr s' \<Rightarrow> role_requests now shsurf rest s')"

text \<open>
  The example shell, locked, with a lock surface: the helper (client 7) binds
  \<^verbatim>\<open>desktop_shell\<close>, the compositor locks at time 2000, the helper creates shell surface 0
  for its surface 10 and makes it the lock surface.
\<close>

definition example_lock_surface_shell :: wl_shell where
  "example_lock_surface_shell =
     projr (desktop_shell_set_lock_surface 0
              (shell_get_shell_surface (Some 0) (Client_object 7 3) 10
                 (lock 2000 None (bind_desktop_shell 7 2 example_shell))))"

text \<open>
  The example shell with a toplevel shell surface 0 of client 8 on surface 10, whose
  committed rotation is a quarter turn, as a completed rotate grab leaves it.
\<close>

definition quarter_turn :: weston_matrix where
  "quarter_turn = [0, 1, 0, 0,  - 1, 0, 0, 0,  0, 0, 1, 0,  0, 0, 0, 1]"

definition example_rotated_shell :: wl_shell where
  "example_rotated_shell =
     update_shsurf 0 (\<lambda>h. h\<lparr>rotation_rotation := quarter_turn\<rparr>)
       (projr (shell_surface_set_toplevel 0
                 (shell_get_shell_surface (Some 0) (Client_object 8 3) 10 example_shell)))"

text \<open>
  The example shell with a fresh shell surface 0 of client 8 on surface 10, which the
  compositor has placed at (30.5, 40).
\<close>

definition example_fresh_shell :: wl_shell where
  "example_fresh_shell =
     weston_surface_set_position 10 (61 / 2) 40
       (shell_get_shell_surface (Some 0) (Client_object 8 3) 10 example_shell)"

section \<open>Properties\<close>

subsection \<open>List operations and frame lemmas\<close>

lemma wl_list_insert_append:
  "a \<notin> set xs \<Longrightarrow> wl_list_insert a e (xs @ a # ys) = xs @ a # e # ys"
  by (induction xs) auto

lemma wl_list_remove_absent: "e \<notin> set xs \<Longrightarrow> wl_list_remove e xs = xs"
  by (simp add: wl_list_remove_def)

lemma wl_list_remove_append:
  "wl_list_remove e (xs @ ys) = wl_list_remove e xs @ wl_list_remove e ys"
  by (simp add: wl_list_remove_def)

lemma emit_frame [simp]:
  "layer_list (emit e s) = layer_list s" "locked (emit e s) = locked s"
  "screensaver_surfaces (emit e s) = screensaver_surfaces s"
  "prepare_event_sent (emit e s) = prepare_event_sent s"
  "child_desktop_shell (emit e s) = child_desktop_shell s"
  by (simp_all add: emit_def)

lemma update_shsurf_frame [simp]:
  "layer_list (update_shsurf i f s) = layer_list s" "locked (update_shsurf i f s) = locked s"
  by (simp_all add: update_shsurf_def)

lemma update_surface_frame [simp]:
  "layer_list (update_surface i f s) = layer_list s" "locked (update_surface i f s) = locked s"
  by (simp_all add: update_surface_def)

lemma update_device_frame [simp]:
  "layer_list (update_device i f s) = layer_list s" "locked (update_device i f s) = locked s"
  by (simp_all add: update_device_def)

lemma hide_screensaver_frame [simp]:
  "layer_list (hide_screensaver i s) = layer_list s" "locked (hide_screensaver i s) = locked s"
  by (simp_all add: hide_screensaver_def Let_def)

lemma show_screensaver_frame [simp]:
  "layer_list (show_screensaver i s) = layer_list s" "locked (show_screensaver i s) = locked s"
  by (simp_all add: show_screensaver_def Let_def split: option.splits)

lemma fold_frame:
  assumes "\<And>x s. layer_list (f x s) = layer_list s" "\<And>x s. locked (f x s) = locked s"
  shows "layer_list (fold f xs s) = layer_list s \<and> locked (fold f xs s) = locked s"
  using assms by (induction xs arbitrary: s) simp_all

lemma terminate_screensaver_frame [simp]:
  "layer_list (terminate_screensaver s) = layer_list s" "locked (terminate_screensaver s) = locked s"
  by (simp_all add: terminate_screensaver_def)

lemma launch_screensaver_frame [simp]:
  "layer_list (launch_screensaver l s) = layer_list s" "locked (launch_screensaver l s) = locked s"
  by (simp_all add: launch_screensaver_def Let_def split: option.splits)

lemma resume_desktop_layers:
  "layer_list (resume_desktop s) =
     wl_list_insert panel_layer toplevel_layer
       (wl_list_insert fullscreen_layer panel_layer
          (wl_list_insert cursor_layer fullscreen_layer
             (wl_list_remove lock_layer (layer_list s))))"
  "locked (resume_desktop s) = False"
  by (simp_all add: resume_desktop_def Let_def fold_frame)

lemma lock_layers:
  "locked s \<Longrightarrow> layer_list (lock time launched s) = layer_list s"
  "\<not> locked s \<Longrightarrow> layer_list (lock time launched s) =
     wl_list_insert cursor_layer lock_layer
       (wl_list_remove fullscreen_layer
          (wl_list_remove toplevel_layer
             (wl_list_remove panel_layer (layer_list s))))"
  "locked (lock time launched s) = True"
  by (simp_all add: lock_def Let_def fold_frame)

lemma unset_fullscreen_frame:
  "shell_unset_fullscreen i s = Inr s1 \<Longrightarrow> layer_list s1 = layer_list s \<and> locked s1 = locked s"
  by (auto simp: shell_unset_fullscreen_def weston_surface_destroy_def
        weston_surface_set_position_def Let_def split: option.splits)

lemma reset_frame_eq:
  "reset_shell_surface_type i s = Inr (r, s1) \<Longrightarrow>
   layer_list s1 = layer_list s \<and> locked s1 = locked s"
  by (cases "type (shsurfs s i)")
     (auto simp: reset_shell_surface_type_def unlink_shsurf_def weston_surface_set_position_def
        Let_def split: sum.splits dest!: unset_fullscreen_frame)

lemma role_request_frame:
  "shell_surface_implementation now i req s = Inr s' \<Longrightarrow>
   layer_list s' = layer_list s \<and> locked s' = locked s"
  by (cases req)
     (auto simp: shell_surface_set_toplevel_def shell_surface_set_transient_def
        shell_surface_set_fullscreen_def shell_surface_set_maximized_def
        shell_surface_set_popup_def weston_surface_set_position_def Let_def
        split: sum.splits prod.splits option.splits if_splits
        dest!: reset_frame_eq)

lemma misc_frames:
  "layer_list (bind_desktop_shell c i s) = layer_list s \<and> locked (bind_desktop_shell c i s) = locked s"
  "layer_list (bind_screensaver c i s) = layer_list s \<and> locked (bind_screensaver c i s) = locked s"
  "layer_list (unbind_screensaver s) = layer_list s \<and> locked (unbind_screensaver s) = locked s"
  "layer_list (handle_lock_surface_destroy s) = layer_list s \<and> locked (handle_lock_surface_destroy s) = locked s"
  "layer_list (handle_screensaver_sigchld s) = layer_list s \<and> locked (handle_screensaver_sigchld s) = locked s"
  "layer_list (desktop_shell_sigchld t l s) = layer_list s \<and> locked (desktop_shell_sigchld t l s) = locked s"
  "layer_list (shell_get_shell_surface ca r es s) = layer_list s \<and> locked (shell_get_shell_surface ca r es s) = locked s"
  "layer_list (resize_grab_motion fg g d t s) = layer_list s \<and> locked (resize_grab_motion fg g d t s) = locked s"
  "layer_list (snd (rotate_grab_motion mu tr rg d t s)) = layer_list s \<and> locked (snd (rotate_grab_motion mu tr rg d t s)) = locked s"
  "layer_list (shell_surface_resize ok sh d t e s) = layer_list s \<and> locked (shell_surface_resize ok sh d t e s) = locked s"
  by (simp_all add: bind_desktop_shell_def bind_screensaver_def unbind_screensaver_def
        handle_lock_surface_destroy_def handle_screensaver_sigchld_def desktop_shell_sigchld_def
        launch_desktop_shell_process_def shell_get_shell_surface_def resize_grab_motion_def
        rotate_grab_motion_def shell_surface_resize_def weston_surface_resize_def
        wl_input_device_set_pointer_focus_null_def wl_input_device_start_pointer_grab_def
        Let_def split: option.splits prod.splits)

lemma set_lock_surface_frame:
  "desktop_shell_set_lock_surface i s = Inr s' \<Longrightarrow>
   layer_list s' = layer_list s \<and> locked s' = locked s"
  by (auto simp: desktop_shell_set_lock_surface_def Let_def
        split: sum.splits prod.splits if_splits dest!: reset_frame_eq)

lemma screensaver_set_surface_frame:
  "screensaver_set_surface i output s = Inr s' \<Longrightarrow>
   layer_list s' = layer_list s \<and> locked s' = locked s"
  by (auto simp: screensaver_set_surface_def Let_def
        split: sum.splits prod.splits if_splits dest!: reset_frame_eq)

subsection \<open>The global layer order\<close>

lemma shell_init_state:
  assumes "shell_init ec ok path duration time launched = Some s"
  shows "locked s = False"
    and "layer_list s =
      wl_list_insert toplevel_layer background_layer
        (wl_list_insert panel_layer toplevel_layer
           (wl_list_insert fullscreen_layer panel_layer
              (wl_list_insert cursor_layer fullscreen_layer (ec_layer_list ec))))"
proof -
  from assms obtain c where l: "launched = Some c" and ok: "ok"
    by (cases launched; cases ok)
       (simp_all add: shell_init_def launch_desktop_shell_process_def Let_def)
  obtain client pid where c: "c = (client, pid)" by (cases c)
  have "Some s = shell_init ec True path duration time (Some (client, pid))"
    using assms l ok c by simp
  then have s: "s = the (shell_init ec True path duration time (Some (client, pid)))"
    by (metis option.sel)
  show "locked s = False"
    unfolding s
    by (simp add: shell_init_def launch_desktop_shell_process_def weston_layer_init_def emit_def Let_def)
  show "layer_list s =
      wl_list_insert toplevel_layer background_layer
        (wl_list_insert panel_layer toplevel_layer
           (wl_list_insert fullscreen_layer panel_layer
              (wl_list_insert cursor_layer fullscreen_layer (ec_layer_list ec))))"
    unfolding s
    by (simp add: shell_init_def launch_desktop_shell_process_def weston_layer_init_def emit_def Let_def)
qed

lemma shell_init_layers_inv:
  assumes ok: "compositor_ok ec" and init: "shell_init ec ok' path duration time launched = Some s"
  shows "layers_inv s"
proof -
  from ok have c: "cursor_layer \<in> set (ec_layer_list ec)" and d: "distinct (ec_layer_list ec)"
    and n: "set (ec_layer_list ec) \<inter>
       {fullscreen_layer, panel_layer, toplevel_layer, background_layer, lock_layer} = {}"
    by (simp_all add: compositor_ok_def)
  from c obtain upper lower where eq: "ec_layer_list ec = upper @ cursor_layer # lower"
    by (auto dest: split_list)
  from d eq have ca: "cursor_layer \<notin> set upper" and cb: "cursor_layer \<notin> set lower"
    and dab: "distinct (upper @ lower)"
    by auto
  from n eq have na: "fullscreen_layer \<notin> set upper" "panel_layer \<notin> set upper"
      "toplevel_layer \<notin> set upper" "background_layer \<notin> set upper" "lock_layer \<notin> set upper"
    and nb: "fullscreen_layer \<notin> set lower" "panel_layer \<notin> set lower"
      "toplevel_layer \<notin> set lower" "background_layer \<notin> set lower" "lock_layer \<notin> set lower"
    by auto
  have l1: "wl_list_insert cursor_layer fullscreen_layer (ec_layer_list ec) =
      upper @ cursor_layer # fullscreen_layer # lower"
    unfolding eq using ca by (rule wl_list_insert_append)
  have l2: "wl_list_insert fullscreen_layer panel_layer (upper @ cursor_layer # fullscreen_layer # lower) =
      upper @ cursor_layer # fullscreen_layer # panel_layer # lower"
    using wl_list_insert_append [of fullscreen_layer "upper @ [cursor_layer]" panel_layer lower] na
    by simp
  have l3: "wl_list_insert panel_layer toplevel_layer
       (upper @ cursor_layer # fullscreen_layer # panel_layer # lower) =
      upper @ cursor_layer # fullscreen_layer # panel_layer # toplevel_layer # lower"
    using wl_list_insert_append [of panel_layer "upper @ [cursor_layer, fullscreen_layer]" toplevel_layer lower] na
    by simp
  have l4: "wl_list_insert toplevel_layer background_layer
       (upper @ cursor_layer # fullscreen_layer # panel_layer # toplevel_layer # lower) =
      upper @ cursor_layer # fullscreen_layer # panel_layer # toplevel_layer # background_layer # lower"
    using wl_list_insert_append [of toplevel_layer "upper @ [cursor_layer, fullscreen_layer, panel_layer]" background_layer lower] na
    by simp
  have ll: "layer_list s =
      upper @ cursor_layer # [fullscreen_layer, panel_layer, toplevel_layer] @ (background_layer # lower)"
    using shell_init_state(2) [OF init] by (simp add: l1 l2 l3 l4)
  have "distinct (upper @ background_layer # lower)"
    using dab na nb by auto
  moreover have "set (upper @ background_layer # lower) \<inter>
      {cursor_layer, fullscreen_layer, panel_layer, toplevel_layer, lock_layer} = {}"
    using ca cb na nb by auto
  ultimately show ?thesis
    unfolding layers_inv_def using ll shell_init_state(1) [OF init]
    by (intro exI [of _ upper] exI [of _ "background_layer # lower"]) simp
qed

text \<open>The layer list of an unlocked state, locked; and of a locked state, resumed.\<close>

lemma lock_unlocked_layers:
  assumes "set (upper @ lower) \<inter>
          {cursor_layer, fullscreen_layer, panel_layer, toplevel_layer, lock_layer} = {}"
    and "layer_list s = upper @ cursor_layer # [fullscreen_layer, panel_layer, toplevel_layer] @ lower"
    and "\<not> locked s"
  shows "layer_list (lock time launched s) = upper @ cursor_layer # [lock_layer] @ lower"
proof -
  from assms(1) have a: "cursor_layer \<notin> set upper" "fullscreen_layer \<notin> set upper"
      "panel_layer \<notin> set upper" "toplevel_layer \<notin> set upper"
    and b: "fullscreen_layer \<notin> set lower" "panel_layer \<notin> set lower" "toplevel_layer \<notin> set lower"
    by auto
  have "wl_list_remove fullscreen_layer (wl_list_remove toplevel_layer
          (wl_list_remove panel_layer (layer_list s))) = upper @ cursor_layer # lower"
    using a b by (simp add: assms(2) wl_list_remove_def)
  then show ?thesis
    using lock_layers(2) [OF assms(3), of time launched] a(1)
    by (simp add: wl_list_insert_append)
qed

lemma resume_locked_layers:
  assumes "set (upper @ lower) \<inter>
          {cursor_layer, fullscreen_layer, panel_layer, toplevel_layer, lock_layer} = {}"
    and "layer_list s = upper @ cursor_layer # [lock_layer] @ lower"
  shows "layer_list (resume_desktop s) =
     upper @ cursor_layer # [fullscreen_layer, panel_layer, toplevel_layer] @ lower"
proof -
  from assms(1) have a: "cursor_layer \<notin> set upper" "fullscreen_layer \<notin> set upper"
      "panel_layer \<notin> set upper" "lock_layer \<notin> set upper"
    and b: "lock_layer \<notin> set lower"
    by auto
  have r: "wl_list_remove lock_layer (layer_list s) = upper @ cursor_layer # lower"
    using a b by (simp add: assms(2) wl_list_remove_def)
  have i1: "wl_list_insert cursor_layer fullscreen_layer (upper @ cursor_layer # lower) =
      upper @ cursor_layer # fullscreen_layer # lower"
    using a(1) by (rule wl_list_insert_append)
  have i2: "wl_list_insert fullscreen_layer panel_layer (upper @ cursor_layer # fullscreen_layer # lower) =
      upper @ cursor_layer # fullscreen_layer # panel_layer # lower"
    using wl_list_insert_append [of fullscreen_layer "upper @ [cursor_layer]" panel_layer lower] a
    by simp
  have i3: "wl_list_insert panel_layer toplevel_layer
       (upper @ cursor_layer # fullscreen_layer # panel_layer # lower) =
      upper @ cursor_layer # fullscreen_layer # panel_layer # toplevel_layer # lower"
    using wl_list_insert_append [of panel_layer "upper @ [cursor_layer, fullscreen_layer]" toplevel_layer lower] a
    by simp
  show ?thesis
    by (simp add: resume_desktop_layers(1) r i1 i2 i3)
qed

lemma layers_inv_frame:
  "layers_inv s \<Longrightarrow> layer_list s' = layer_list s \<Longrightarrow> locked s' = locked s \<Longrightarrow> layers_inv s'"
  by (simp add: layers_inv_def)

lemma layers_inv_lock: "layers_inv s \<Longrightarrow> layers_inv (lock time launched s)"
proof (cases "locked s")
  case True
  assume "layers_inv s"
  then show ?thesis
    using True lock_layers(1) [OF True] lock_layers(3) [of time launched s]
    by (auto intro: layers_inv_frame)
next
  case False
  assume "layers_inv s"
  then obtain upper lower where d: "distinct (upper @ lower)"
    and n: "set (upper @ lower) \<inter>
          {cursor_layer, fullscreen_layer, panel_layer, toplevel_layer, lock_layer} = {}"
    and l: "layer_list s = upper @ cursor_layer # [fullscreen_layer, panel_layer, toplevel_layer] @ lower"
    using False unfolding layers_inv_def by auto
  show ?thesis
    unfolding layers_inv_def
    using d n lock_unlocked_layers [OF n l False, of time launched] lock_layers(3) [of time launched s]
    by (intro exI [of _ upper] exI [of _ lower]) simp
qed

lemma layers_inv_resume: "layers_inv s \<Longrightarrow> locked s \<Longrightarrow> layers_inv (resume_desktop s)"
proof -
  assume "layers_inv s" and lk: "locked s"
  then obtain upper lower where d: "distinct (upper @ lower)"
    and n: "set (upper @ lower) \<inter>
          {cursor_layer, fullscreen_layer, panel_layer, toplevel_layer, lock_layer} = {}"
    and l: "layer_list s = upper @ cursor_layer # [lock_layer] @ lower"
    unfolding layers_inv_def by auto
  show ?thesis
    unfolding layers_inv_def
    using d n resume_locked_layers [OF n l] resume_desktop_layers(2) [of s]
    by (intro exI [of _ upper] exI [of _ lower]) simp
qed

lemma layers_inv_desktop_shell_unlock: "layers_inv s \<Longrightarrow> layers_inv (desktop_shell_unlock s)"
proof -
  assume inv: "layers_inv s"
  have inv': "layers_inv (s\<lparr>prepare_event_sent := False\<rparr>)"
    by (rule layers_inv_frame [OF inv]) simp_all
  show ?thesis
    using inv' layers_inv_resume [OF inv']
    by (simp add: desktop_shell_unlock_def Let_def)
qed

lemma layers_inv_unlock: "layers_inv s \<Longrightarrow> layers_inv (unlock s)"
proof -
  assume inv: "layers_inv s"
  have 1: "layers_inv (emit Compositor_wake s)"
    by (rule layers_inv_frame [OF inv]) simp_all
  have 2: "layers_inv ((emit (Send_prepare_lock_surface r) s)\<lparr>prepare_event_sent := True\<rparr>)" for r
    by (rule layers_inv_frame [OF inv]) simp_all
  show ?thesis
    using inv 1 2 layers_inv_resume [OF inv]
    by (simp add: unlock_def split: option.splits)
qed

lemma layers_inv_unbind: "layers_inv s \<Longrightarrow> layers_inv (unbind_desktop_shell s)"
proof -
  assume inv: "layers_inv s"
  have "layers_inv (if locked s then resume_desktop s else s)"
    using inv layers_inv_resume [OF inv] by simp
  then show ?thesis
    unfolding unbind_desktop_shell_def Let_def
    by (rule layers_inv_frame) simp_all
qed

lemma reachable_layers_inv: "reachable s \<Longrightarrow> layers_inv s"
proof (induction rule: reachable.induct)
  case (reachable_init ec ok path duration time launched s)
  then show ?case by (rule shell_init_layers_inv)
next
  case (reachable_lock s time launched)
  then show ?case by (simp add: layers_inv_lock)
next
  case (reachable_unlock s)
  then show ?case by (simp add: layers_inv_unlock)
next
  case (reachable_desktop_shell_unlock s)
  then show ?case by (simp add: layers_inv_desktop_shell_unlock)
next
  case (reachable_unbind_desktop_shell s)
  then show ?case by (simp add: layers_inv_unbind)
next
  case (reachable_role_request s now shsurf request s')
  then show ?case using role_request_frame layers_inv_frame by blast
next
  case (reachable_other s s')
  then show ?case using layers_inv_frame by blast
next
  case (reachable_set_lock_surface s shsurf s')
  then show ?case using layers_inv_frame set_lock_surface_frame by blast
next
  case (reachable_screensaver_set_surface s shsurf out s')
  then show ?case using layers_inv_frame screensaver_set_surface_frame by blast
qed (erule layers_inv_frame; simp add: misc_frames)+

text \<open>
  Claim C3. In every reachable state of the shell whose \<open>locked\<close> flag is set, the global
  layer list holds neither the panel, the toplevel nor the fullscreen layer, and it
  holds the lock layer. Reachable states are closed under every entry point of the
  shell, so this holds after each of them for as long as the flag stays set.
\<close>

theorem locked_layers:
  "reachable s \<Longrightarrow> locked s \<Longrightarrow>
     panel_layer \<notin> set (layer_list s) \<and> toplevel_layer \<notin> set (layer_list s) \<and>
     fullscreen_layer \<notin> set (layer_list s) \<and> lock_layer \<in> set (layer_list s)"
  by (drule reachable_layers_inv) (auto simp: layers_inv_def)

subsection \<open>The example state\<close>

lemma example_init:
  "shell_init example_compositor True None 60 1000 (Some (7, 4242)) = Some example_shell"
  by (simp add: example_shell_def shell_init_def launch_desktop_shell_process_def Let_def)

lemma example_shell_eq:
  "example_shell =
     \<lparr>layer_list = [compositor_layer 0, cursor_layer, fullscreen_layer, panel_layer,
                     toplevel_layer, background_layer],
      layer_surfaces = (\<lambda>l. []),
      output_list = [0],
      output_list_head = 99,
      outputs = ec_outputs example_compositor,
      input_device_list = [0],
      input_devices = ec_input_devices example_compositor,
      idle_time = 300,
      option_idle_time = 300,
      surfaces = ec_surfaces example_compositor,
      child_pid = 4242,
      child_client = Some 7,
      child_desktop_shell = None,
      child_deathcount = 0,
      child_deathstamp = 1000,
      locked = False,
      prepare_event_sent = False,
      lock_surface = None,
      backgrounds = [],
      panels = [],
      screensaver_path = None,
      screensaver_duration = 60,
      screensaver_binding = None,
      screensaver_surfaces = [],
      screensaver_pid = 0,
      shsurfs = (\<lambda>i. calloc_shell_surface),
      live_shsurfs = [],
      trace = [Client_launch ''LIBEXECDIR/weston-desktop-shell'']\<rparr>"
  by (simp add: example_shell_def shell_init_def launch_desktop_shell_process_def
        weston_layer_init_def emit_def Let_def example_compositor_def fun_eq_iff)

lemma example_compositor_ok: "compositor_ok example_compositor"
  by (simp add: compositor_ok_def example_compositor_def)

lemma example_reachable: "reachable example_shell"
  using example_compositor_ok example_init by (rule reachable_init)


theorem locked_layers_witness:
  "reachable (lock 2000 None example_shell) \<and> locked (lock 2000 None example_shell) \<and>
   panel_layer \<notin> set (layer_list (lock 2000 None example_shell)) \<and>
   toplevel_layer \<notin> set (layer_list (lock 2000 None example_shell)) \<and>
   fullscreen_layer \<notin> set (layer_list (lock 2000 None example_shell)) \<and>
   lock_layer \<in> set (layer_list (lock 2000 None example_shell))"
proof -
  have r: "reachable (lock 2000 None example_shell)"
    using example_reachable by (rule reachable_lock)
  have k: "locked (lock 2000 None example_shell)"
    by (simp add: lock_layers(3))
  show ?thesis
    using r k locked_layers [OF r k] by simp
qed

text \<open>
  In a reachable state every link that \<^verbatim>\<open>lock\<close> and \<^verbatim>\<open>resume_desktop\<close> remove, and the
  cursor layer after which they insert, is on the global layer list.
\<close>

lemma layer_links_present:
  assumes "reachable s"
  shows "cursor_layer \<in> set (layer_list s)"
    and "locked s \<Longrightarrow> lock_layer \<in> set (layer_list s)"
    and "\<not> locked s \<Longrightarrow>
           panel_layer \<in> set (layer_list s) \<and> toplevel_layer \<in> set (layer_list s) \<and>
           fullscreen_layer \<in> set (layer_list s)"
  using reachable_layers_inv [OF assms] by (auto simp: layers_inv_def)




subsection \<open>Lock orchestration\<close>



subsection \<open>Resize\<close>

text \<open>
  Claim C8. A resize request whose edges are 0, greater than 15, hold both left and
  right, or hold both top and bottom, and any resize request on a fullscreen surface, is
  a no-op: \<^verbatim>\<open>weston_surface_resize\<close> returns 0 and the state, with its grabs and its trace
  of events and errors, is the one before the request; so for the client request
  \<^verbatim>\<open>shell_surface_resize\<close>.
\<close>
theorem resize_rejected_is_noop:
  "type (shsurfs s shsurf) = SHELL_SURFACE_FULLSCREEN \<or> edges = 0 \<or> edges > 15 \<or>
   edges AND (WL_SHELL_SURFACE_RESIZE_LEFT OR WL_SHELL_SURFACE_RESIZE_RIGHT) =
     WL_SHELL_SURFACE_RESIZE_LEFT OR WL_SHELL_SURFACE_RESIZE_RIGHT \<or>
   edges AND (WL_SHELL_SURFACE_RESIZE_TOP OR WL_SHELL_SURFACE_RESIZE_BOTTOM) =
     WL_SHELL_SURFACE_RESIZE_TOP OR WL_SHELL_SURFACE_RESIZE_BOTTOM \<Longrightarrow>
   weston_surface_resize malloc_ok shsurf wd time edges s = (0, s) \<and>
   shell_surface_resize malloc_ok shsurf wd time edges s = s"
  by (auto simp: weston_surface_resize_def shell_surface_resize_def
      WL_SHELL_SURFACE_RESIZE_LEFT_def WL_SHELL_SURFACE_RESIZE_RIGHT_def
      WL_SHELL_SURFACE_RESIZE_TOP_def WL_SHELL_SURFACE_RESIZE_BOTTOM_def)

theorem resize_rejected_is_noop_witness:
  "(12 :: 32 word) AND (WL_SHELL_SURFACE_RESIZE_LEFT OR WL_SHELL_SURFACE_RESIZE_RIGHT) =
     WL_SHELL_SURFACE_RESIZE_LEFT OR WL_SHELL_SURFACE_RESIZE_RIGHT \<and>
   weston_surface_resize True 0 0 5 12 example_shell = (0, example_shell) \<and>
   shell_surface_resize True 0 0 5 12 example_shell = example_shell"
proof -
  have h: "(12 :: 32 word) AND (WL_SHELL_SURFACE_RESIZE_LEFT OR WL_SHELL_SURFACE_RESIZE_RIGHT) =
     WL_SHELL_SURFACE_RESIZE_LEFT OR WL_SHELL_SURFACE_RESIZE_RIGHT"
    by (simp add: WL_SHELL_SURFACE_RESIZE_LEFT_def WL_SHELL_SURFACE_RESIZE_RIGHT_def)
  show ?thesis
    using h resize_rejected_is_noop [of example_shell 0 12 True 0 5] by blast
qed


lemma unat_eq_word_of_nat: "unat (e::32 word) = n \<Longrightarrow> e = word_of_nat n"
  by auto

lemma edges_cases:
  assumes "(e::32 word) \<le> 15"
  shows "e \<in> {0, 1, 2, 3, 4, 5, 6, 7, 8, 9, 10, 11, 12, 13, 14, 15}"
proof -
  from assms have "unat e \<le> 15" by (simp add: word_le_nat_alt)
  then have "unat e \<in> {0, 1, 2, 3, 4, 5, 6, 7, 8, 9, 10, 11, 12, 13, 14, 15}"
    by simp arith
  then show ?thesis
    apply (elim insertE emptyE)
    apply (drule unat_eq_word_of_nat, simp)+
    done
qed

lemma edges_not_both:
  assumes "(e::32 word) \<le> 15" "e AND 3 \<noteq> 3" "e AND 12 \<noteq> 12"
  shows "\<not> (e AND WL_SHELL_SURFACE_RESIZE_LEFT \<noteq> 0 \<and> e AND WL_SHELL_SURFACE_RESIZE_RIGHT \<noteq> 0)"
    and "\<not> (e AND WL_SHELL_SURFACE_RESIZE_TOP \<noteq> 0 \<and> e AND WL_SHELL_SURFACE_RESIZE_BOTTOM \<noteq> 0)"
  using edges_cases [OF assms(1)] assms(2,3)
  by (auto simp: WL_SHELL_SURFACE_RESIZE_LEFT_def WL_SHELL_SURFACE_RESIZE_RIGHT_def
      WL_SHELL_SURFACE_RESIZE_TOP_def WL_SHELL_SURFACE_RESIZE_BOTTOM_def)



text \<open>
  The arithmetic of \<^verbatim>\<open>resize_grab_motion\<close> is that of \<^verbatim>\<open>int32_t\<close>: each sum and each
  difference wraps, so the two steps of \<^verbatim>\<open>resize->width + from_x - to_x\<close> come to the
  wrapped value of the mathematical result, and to that result itself when it is an
  \<^verbatim>\<open>int32_t\<close>.
\<close>

lemma int32_id: "is_int32 x \<Longrightarrow> int32 x = x"
  unfolding is_int32_def int32_def
  by (simp add: sint_sbintrunc' signed_take_bit_int_eq_self)

lemma int32_is_int32: "is_int32 (int32 x)"
  unfolding is_int32_def int32_def
  using sint_ge [of "word_of_int x :: 32 word"] sint_lt [of "word_of_int x :: 32 word"]
  by simp

lemma int32_add_diff: "int32 (int32 (a + b) - c) = int32 (a + b - c)"
  by (simp add: int32_def)

lemma int32_wraps: "int32 (2147483647 + (0 - (- 1))) = - 2147483648"
  by (simp add: int32_def)

text \<open>
  Claim C7. A resize grab is installed by \<^verbatim>\<open>weston_surface_resize\<close> for edges it
  accepts, and records the width and height of the surface at that moment. On every
  motion of such a grab the configure event carries, in the \<^verbatim>\<open>int32_t\<close> arithmetic of the
  code, the initial width plus the surface-local pointer delta (grab start minus current
  position) when the left edge is active, minus that delta when the right edge is active,
  and the initial width when neither is; the height likewise for the top and bottom
  edges. Where the mathematical sum or difference is an \<^verbatim>\<open>int32_t\<close>, the event carries
  exactly that value; elsewhere it carries the value wrapped to 32 bits.
\<close>
theorem resize_grab_motion_configure:
  assumes "type (shsurfs s0 shsurf) \<noteq> SHELL_SURFACE_FULLSCREEN"
    and "edges \<noteq> 0" and "edges \<le> 15" and "edges AND 3 \<noteq> 3" and "edges AND 12 \<noteq> 12"
  shows
   "\<exists>resize.
      pointer_grab (input_devices (snd (weston_surface_resize True shsurf wd time0 edges s0)) wd) =
        resize_grab_interface resize \<and>
      (\<forall>from_global device time s. \<exists>width height.
         resize_grab_motion from_global resize device time s =
           emit (Shell_surface_send_configure shsurf time edges width height) s \<and>
         (let es = surface (shsurfs s shsurf);
              d = input_devices s device;
              initial_width = geometry_width (surfaces s0 (surface (shsurfs s0 shsurf)));
              initial_height = geometry_height (surfaces s0 (surface (shsurfs s0 shsurf)));
              delta_x = fst (from_global es (grab_x d, grab_y d)) -
                        fst (from_global es (device_x d, device_y d));
              delta_y = snd (from_global es (grab_x d, grab_y d)) -
                        snd (from_global es (device_x d, device_y d));
              left = (edges AND WL_SHELL_SURFACE_RESIZE_LEFT \<noteq> 0);
              right = (edges AND WL_SHELL_SURFACE_RESIZE_RIGHT \<noteq> 0);
              top = (edges AND WL_SHELL_SURFACE_RESIZE_TOP \<noteq> 0);
              bottom = (edges AND WL_SHELL_SURFACE_RESIZE_BOTTOM \<noteq> 0)
          in (left \<longrightarrow> width = int32 (initial_width + delta_x)) \<and>
             (right \<longrightarrow> width = int32 (initial_width - delta_x)) \<and>
             (\<not> left \<and> \<not> right \<longrightarrow> width = initial_width) \<and>
             (top \<longrightarrow> height = int32 (initial_height + delta_y)) \<and>
             (bottom \<longrightarrow> height = int32 (initial_height - delta_y)) \<and>
             (\<not> top \<and> \<not> bottom \<longrightarrow> height = initial_height) \<and>
             (left \<and> is_int32 (initial_width + delta_x) \<longrightarrow> width = initial_width + delta_x) \<and>
             (right \<and> is_int32 (initial_width - delta_x) \<longrightarrow> width = initial_width - delta_x) \<and>
             (top \<and> is_int32 (initial_height + delta_y) \<longrightarrow> height = initial_height + delta_y) \<and>
             (bottom \<and> is_int32 (initial_height - delta_y) \<longrightarrow>
                height = initial_height - delta_y)))"
proof -
  let ?g = "\<lparr>resize_edges = edges,
             resize_width = geometry_width (surfaces s0 (surface (shsurfs s0 shsurf))),
             resize_height = geometry_height (surfaces s0 (surface (shsurfs s0 shsurf))),
             resize_shsurf = shsurf\<rparr>"
  have not_gt: "\<not> edges > 15" using assms(3) by simp
  have installed:
    "pointer_grab (input_devices (snd (weston_surface_resize True shsurf wd time0 edges s0)) wd) =
        resize_grab_interface ?g"
    using assms(1,2,4,5) not_gt
    by (simp add: weston_surface_resize_def Let_def wl_input_device_start_pointer_grab_def
          wl_input_device_set_pointer_focus_null_def update_device_def)
  note nb = edges_not_both [OF assms(3,4,5)]
  have motion: "\<exists>width height.
         resize_grab_motion from_global ?g device time s =
           emit (Shell_surface_send_configure shsurf time edges width height) s \<and>
         (let es = surface (shsurfs s shsurf);
              d = input_devices s device;
              initial_width = geometry_width (surfaces s0 (surface (shsurfs s0 shsurf)));
              initial_height = geometry_height (surfaces s0 (surface (shsurfs s0 shsurf)));
              delta_x = fst (from_global es (grab_x d, grab_y d)) -
                        fst (from_global es (device_x d, device_y d));
              delta_y = snd (from_global es (grab_x d, grab_y d)) -
                        snd (from_global es (device_x d, device_y d));
              left = (edges AND WL_SHELL_SURFACE_RESIZE_LEFT \<noteq> 0);
              right = (edges AND WL_SHELL_SURFACE_RESIZE_RIGHT \<noteq> 0);
              top = (edges AND WL_SHELL_SURFACE_RESIZE_TOP \<noteq> 0);
              bottom = (edges AND WL_SHELL_SURFACE_RESIZE_BOTTOM \<noteq> 0)
          in (left \<longrightarrow> width = int32 (initial_width + delta_x)) \<and>
             (right \<longrightarrow> width = int32 (initial_width - delta_x)) \<and>
             (\<not> left \<and> \<not> right \<longrightarrow> width = initial_width) \<and>
             (top \<longrightarrow> height = int32 (initial_height + delta_y)) \<and>
             (bottom \<longrightarrow> height = int32 (initial_height - delta_y)) \<and>
             (\<not> top \<and> \<not> bottom \<longrightarrow> height = initial_height) \<and>
             (left \<and> is_int32 (initial_width + delta_x) \<longrightarrow> width = initial_width + delta_x) \<and>
             (right \<and> is_int32 (initial_width - delta_x) \<longrightarrow> width = initial_width - delta_x) \<and>
             (top \<and> is_int32 (initial_height + delta_y) \<longrightarrow> height = initial_height + delta_y) \<and>
             (bottom \<and> is_int32 (initial_height - delta_y) \<longrightarrow>
                height = initial_height - delta_y))"
    for from_global device time s
  proof -
    let ?es = "surface (shsurfs s shsurf)"
    let ?d = "input_devices s device"
    let ?from = "from_global ?es (grab_x ?d, grab_y ?d)"
    let ?to = "from_global ?es (device_x ?d, device_y ?d)"
    let ?w = "if edges AND WL_SHELL_SURFACE_RESIZE_LEFT \<noteq> 0
                then int32 (resize_width ?g + fst ?from - fst ?to)
              else if edges AND WL_SHELL_SURFACE_RESIZE_RIGHT \<noteq> 0
                then int32 (resize_width ?g + fst ?to - fst ?from)
              else resize_width ?g"
    let ?h = "if edges AND WL_SHELL_SURFACE_RESIZE_TOP \<noteq> 0
                then int32 (resize_height ?g + snd ?from - snd ?to)
              else if edges AND WL_SHELL_SURFACE_RESIZE_BOTTOM \<noteq> 0
                then int32 (resize_height ?g + snd ?to - snd ?from)
              else resize_height ?g"
    have e: "resize_grab_motion from_global ?g device time s =
           emit (Shell_surface_send_configure shsurf time edges ?w ?h) s"
      by (simp add: resize_grab_motion_def Let_def case_prod_beta int32_add_diff)
    show ?thesis
      apply (rule exI [of _ ?w])
      apply (rule exI [of _ ?h])
      apply (rule conjI)
       apply (rule e)
      using nb apply (auto simp: Let_def int32_id add_diff_eq diff_diff_eq2)
      done
  qed
  show ?thesis
    using installed motion by blast
qed

theorem resize_grab_motion_configure_witness:
  "(let s0 = shell_get_shell_surface (Some 0) (Client_object 8 3) 10 example_shell;
        s1 = snd (weston_surface_resize True 0 0 2000 5 s0);
        s = update_device 0 (\<lambda>d. d\<lparr>device_x := 30, device_y := 40\<rparr>) s1
    in type (shsurfs s0 0) \<noteq> SHELL_SURFACE_FULLSCREEN \<and>
       (5 :: 32 word) \<noteq> 0 \<and> (5 :: 32 word) \<le> 15 \<and>
       (5 :: 32 word) AND 3 \<noteq> 3 \<and> (5 :: 32 word) AND 12 \<noteq> 12 \<and>
       (\<exists>resize.
          pointer_grab (input_devices s1 0) = resize_grab_interface resize \<and>
          resize_grab_motion (\<lambda>es p. p) resize 0 2100 s =
            emit (Shell_surface_send_configure 0 2100 5 (100 + (0 - 30)) (100 + (0 - 40))) s))"
proof -
  let ?init = "shell_get_shell_surface (Some 0) (Client_object 8 3) 10 example_shell"
  let ?grabbed = "snd (weston_surface_resize True 0 0 2000 5 ?init)"
  let ?moved = "update_device 0 (\<lambda>d. d\<lparr>device_x := 30, device_y := 40\<rparr>) ?grabbed"
  note ev = shell_get_shell_surface_def get_shell_surface_def calloc_shell_surface_def
    example_shell_eq example_compositor_def
  have h: "type (shsurfs ?init 0) \<noteq> SHELL_SURFACE_FULLSCREEN"
    "(5 :: 32 word) \<noteq> 0" "(5 :: 32 word) \<le> 15"
    "(5 :: 32 word) AND 3 \<noteq> 3" "(5 :: 32 word) AND 12 \<noteq> 12"
    by (simp_all add: ev)
  have i: "geometry_width (surfaces ?init (surface (shsurfs ?init 0))) = 100"
    "geometry_height (surfaces ?init (surface (shsurfs ?init 0))) = 100"
    by (simp_all add: ev)
  have d: "grab_x (input_devices ?moved 0) = 0" "grab_y (input_devices ?moved 0) = 0"
    "device_x (input_devices ?moved 0) = 30" "device_y (input_devices ?moved 0) = 40"
    by (simp_all add: update_device_def weston_surface_resize_def ev Let_def
          wl_input_device_set_pointer_focus_null_def wl_input_device_start_pointer_grab_def)
  from resize_grab_motion_configure [OF h, of 0 2000]
  obtain resize where
    g: "pointer_grab (input_devices ?grabbed 0) = resize_grab_interface resize"
    and m: "\<And>from_global device time s. \<exists>width height.
         resize_grab_motion from_global resize device time s =
           emit (Shell_surface_send_configure 0 time 5 width height) s \<and>
         (let es = surface (shsurfs s 0);
              d = input_devices s device;
              initial_width = geometry_width (surfaces ?init (surface (shsurfs ?init 0)));
              initial_height = geometry_height (surfaces ?init (surface (shsurfs ?init 0)));
              delta_x = fst (from_global es (grab_x d, grab_y d)) -
                        fst (from_global es (device_x d, device_y d));
              delta_y = snd (from_global es (grab_x d, grab_y d)) -
                        snd (from_global es (device_x d, device_y d));
              left = (5 AND WL_SHELL_SURFACE_RESIZE_LEFT \<noteq> 0);
              right = (5 AND WL_SHELL_SURFACE_RESIZE_RIGHT \<noteq> 0);
              top = (5 AND WL_SHELL_SURFACE_RESIZE_TOP \<noteq> 0);
              bottom = (5 AND WL_SHELL_SURFACE_RESIZE_BOTTOM \<noteq> 0)
          in (left \<longrightarrow> width = int32 (initial_width + delta_x)) \<and>
             (right \<longrightarrow> width = int32 (initial_width - delta_x)) \<and>
             (\<not> left \<and> \<not> right \<longrightarrow> width = initial_width) \<and>
             (top \<longrightarrow> height = int32 (initial_height + delta_y)) \<and>
             (bottom \<longrightarrow> height = int32 (initial_height - delta_y)) \<and>
             (\<not> top \<and> \<not> bottom \<longrightarrow> height = initial_height) \<and>
             (left \<and> is_int32 (initial_width + delta_x) \<longrightarrow> width = initial_width + delta_x) \<and>
             (right \<and> is_int32 (initial_width - delta_x) \<longrightarrow> width = initial_width - delta_x) \<and>
             (top \<and> is_int32 (initial_height + delta_y) \<longrightarrow> height = initial_height + delta_y) \<and>
             (bottom \<and> is_int32 (initial_height - delta_y) \<longrightarrow>
                height = initial_height - delta_y))"
    by blast
  from m [of "\<lambda>es p. p" 0 2100 ?moved] obtain width height where
    e: "resize_grab_motion (\<lambda>es p. p) resize 0 2100 ?moved =
           emit (Shell_surface_send_configure 0 2100 5 width height) ?moved"
    and w: "width = 100 + (0 - 30)" and hh: "height = 100 + (0 - 40)"
    unfolding Let_def i d
    by (auto simp: WL_SHELL_SURFACE_RESIZE_LEFT_def WL_SHELL_SURFACE_RESIZE_TOP_def
          is_int32_def)
  have "pointer_grab (input_devices ?grabbed 0) = resize_grab_interface resize \<and>
          resize_grab_motion (\<lambda>es p. p) resize 0 2100 ?moved =
            emit (Shell_surface_send_configure 0 2100 5 (100 + (0 - 30)) (100 + (0 - 40))) ?moved"
    using g e w hh by simp
  then show ?thesis
    unfolding Let_def using h by blast
qed

text \<open>
  At the edge of the range the value wraps: a grab that recorded the width 2147483647
  with the left edge active sends the width \<open>-2147483648\<close> when the pointer has moved
  one pixel to the left of the grab start.
\<close>

lemma resize_grab_motion_wraps:
  "resize_grab_motion (\<lambda>es p. p)
     \<lparr>resize_edges = WL_SHELL_SURFACE_RESIZE_LEFT, resize_width = 2147483647,
      resize_height = 100, resize_shsurf = 0\<rparr> 0 2100
     (update_device 0 (\<lambda>d. d\<lparr>grab_x := 0, grab_y := 0, device_x := - 1, device_y := 0\<rparr>)
        example_shell) =
   emit (Shell_surface_send_configure 0 2100 WL_SHELL_SURFACE_RESIZE_LEFT (- 2147483648) 100)
     (update_device 0 (\<lambda>d. d\<lparr>grab_x := 0, grab_y := 0, device_x := - 1, device_y := 0\<rparr>)
        example_shell)"
  by (simp add: resize_grab_motion_def Let_def update_device_def int32_def
        WL_SHELL_SURFACE_RESIZE_LEFT_def WL_SHELL_SURFACE_RESIZE_TOP_def
        WL_SHELL_SURFACE_RESIZE_BOTTOM_def)

subsection \<open>Privileged bindings\<close>

text \<open>
  Claim C4, amended. A bind of \<^verbatim>\<open>desktop_shell\<close> is accepted exactly when the client is
  the recorded helper client; any other client gets the protocol error "permission to
  bind desktop_shell denied" and its resource is destroyed. A bind of \<^verbatim>\<open>screensaver\<close> is
  accepted exactly when no binding is held, whoever the client is; otherwise the client
  gets the protocol error "interface object already bound" and its resource is
  destroyed.
\<close>
theorem privileged_binding_gates:
  "(let r = Client_object client obj_id; s' = bind_desktop_shell client obj_id s in
      if Some client = child_client s
        then s' = s\<lparr>child_desktop_shell := Some r\<rparr>
      else trace s' = trace s @
             [Post_error r WL_DISPLAY_ERROR_INVALID_OBJECT ''permission to bind desktop_shell denied'',
              Resource_destroy r] \<and>
           child_desktop_shell s' = child_desktop_shell s) \<and>
   (let r = Client_object client obj_id; s' = bind_screensaver client obj_id s in
      if screensaver_binding s = None
        then s' = s\<lparr>screensaver_binding := Some r\<rparr>
      else trace s' = trace s @
             [Post_error r WL_DISPLAY_ERROR_INVALID_OBJECT ''interface object already bound'',
              Resource_destroy r] \<and>
           screensaver_binding s' = screensaver_binding s)"
  by (simp add: bind_desktop_shell_def bind_screensaver_def emit_def Let_def)



text \<open>
  Claim C4 as stated fails for the screensaver protocol: client 9 is not the helper
  (client 7), binds \<^verbatim>\<open>screensaver\<close> while no binding is held, and is accepted without
  an error.
\<close>

theorem bind_screensaver_counterexample:
  "child_client example_shell = Some 7 \<and>
   trace (bind_screensaver 9 1 example_shell) = trace example_shell \<and>
   screensaver_binding (bind_screensaver 9 1 example_shell) = Some (Client_object 9 1)"
  by (simp add: example_shell_eq bind_screensaver_def)

subsection \<open>Helper supervision\<close>

lemma sigchld_fields:
  "child_deathstamp (desktop_shell_sigchld time launched s) =
     (if time - child_deathstamp s > 30000 then time else child_deathstamp s)"
  "child_deathcount (desktop_shell_sigchld time launched s) =
     (if time - child_deathstamp s > 30000 then 0 else child_deathcount s) + 1"
  by (simp_all add: desktop_shell_sigchld_def launch_desktop_shell_process_def emit_def Let_def case_prod_beta
        split: option.splits)

lemma sigchld_gives_up:
  "child_deathcount (desktop_shell_sigchld time launched s) > 5 \<Longrightarrow>
   helper_launches (desktop_shell_sigchld time launched s) = helper_launches s \<and>
   child_client (desktop_shell_sigchld time launched s) = None"
  by (simp add: desktop_shell_sigchld_def launch_desktop_shell_process_def emit_def Let_def case_prod_beta
        helper_launches_def split: option.splits if_splits)

lemma sigchld_respawns:
  "\<not> child_deathcount (desktop_shell_sigchld time launched s) > 5 \<Longrightarrow>
   helper_launches (desktop_shell_sigchld time launched s) = helper_launches s + 1 \<and>
   child_client (desktop_shell_sigchld time launched s) = map_option fst launched"
  by (auto simp: desktop_shell_sigchld_def launch_desktop_shell_process_def emit_def Let_def case_prod_beta
        helper_launches_def split: option.splits if_splits)

lemma word_gt5_suc:
  assumes "(c::32 word) > 5" and "unat c + 1 < 2 ^ 32"
  shows "c + 1 > 5" and "unat (c + 1) = unat c + 1"
proof -
  show u: "unat (c + 1) = unat c + 1"
    using assms(2) by (simp add: unat_word_ariths)
  from assms(1) have "unat c > 5" by (simp add: word_less_nat_alt)
  with u show "c + 1 > 5" by (simp add: word_less_nat_alt)
qed

lemma helper_deaths_given_up:
  assumes "child_deathcount s > 5"
    and "\<forall>(t, l) \<in> set later. t - child_deathstamp s \<le> 30000"
    and "unat (child_deathcount s) + length later < 2 ^ 32"
  shows "helper_launches (helper_deaths later s) = helper_launches s"
  using assms
proof (induction later arbitrary: s)
  case Nil
  then show ?case by simp
next
  case (Cons d later)
  obtain t l where d: "d = (t, l)" by (cases d)
  let ?s = "desktop_shell_sigchld t l s"
  from Cons.prems(2) d have w: "\<not> t - child_deathstamp s > 30000" by auto
  have st: "child_deathstamp ?s = child_deathstamp s" using w by (simp add: sigchld_fields)
  have ct: "child_deathcount ?s = child_deathcount s + 1" using w by (simp add: sigchld_fields)
  from Cons.prems(3) have nw: "unat (child_deathcount s) + 1 < 2 ^ 32" by simp
  have gt: "child_deathcount ?s > 5" unfolding ct using Cons.prems(1) nw by (rule word_gt5_suc(1))
  have un: "unat (child_deathcount ?s) = unat (child_deathcount s) + 1"
    unfolding ct using Cons.prems(1) nw by (rule word_gt5_suc(2))
  have "helper_launches (helper_deaths later ?s) = helper_launches ?s"
  proof (rule Cons.IH [OF gt])
    show "\<forall>(t, l)\<in>set later. t - child_deathstamp ?s \<le> 30000"
      using Cons.prems(2) st by simp
    show "unat (child_deathcount ?s) + length later < 2 ^ 32"
      using Cons.prems(3) un by simp
  qed
  moreover have "helper_launches ?s = helper_launches s"
    using sigchld_gives_up [OF gt] by simp
  ultimately show ?case by (simp add: d)
qed

text \<open>
  Claim C5. At each death of the helper: if more than 30 seconds (30000 ms, in 32-bit
  arithmetic) have passed since the recorded start of the window, the window starts at
  this death and the counter restarts; the counter is then incremented; if it exceeds 5
  the helper is not launched again, otherwise it is. Once it has given up, no later
  death inside the same window launches it, for as long as the 32-bit counter has not
  wrapped.
\<close>

theorem helper_respawn_window:
  "(let expired = (time - child_deathstamp s > 30000);
        s' = desktop_shell_sigchld time launched s
    in child_deathstamp s' = (if expired then time else child_deathstamp s) \<and>
       child_deathcount s' = (if expired then 0 else child_deathcount s) + 1 \<and>
       (if child_deathcount s' > 5
          then helper_launches s' = helper_launches s \<and> child_client s' = None
        else helper_launches s' = helper_launches s + 1 \<and>
             child_client s' = map_option fst launched) \<and>
       (child_deathcount s' > 5 \<and>
        (\<forall>(t, l) \<in> set later. t - child_deathstamp s' \<le> 30000) \<and>
        unat (child_deathcount s') + length later < 2 ^ 32 \<longrightarrow>
        helper_launches (helper_deaths later s') = helper_launches s'))"
proof -
  let ?s = "desktop_shell_sigchld time launched s"
  have 1: "child_deathstamp ?s = (if time - child_deathstamp s > 30000 then time else child_deathstamp s)"
    by (rule sigchld_fields(1))
  have 2: "child_deathcount ?s = (if time - child_deathstamp s > 30000 then 0 else child_deathcount s) + 1"
    by (rule sigchld_fields(2))
  have 3: "if child_deathcount ?s > 5
          then helper_launches ?s = helper_launches s \<and> child_client ?s = None
        else helper_launches ?s = helper_launches s + 1 \<and>
             child_client ?s = map_option fst launched"
    using sigchld_gives_up [of time launched s] sigchld_respawns [of time launched s]
    by (cases "child_deathcount ?s > 5") simp_all
  have 4: "child_deathcount ?s > 5 \<and>
        (\<forall>(t, l) \<in> set later. t - child_deathstamp ?s \<le> 30000) \<and>
        unat (child_deathcount ?s) + length later < 2 ^ 32 \<longrightarrow>
        helper_launches (helper_deaths later ?s) = helper_launches ?s"
    using helper_deaths_given_up [of ?s later] by blast
  show ?thesis
    unfolding Let_def using 1 2 3 4 by (intro conjI)
qed

theorem helper_respawn_window_witness:
  "(let s5 = helper_deaths
               [(2000, Some (8, 4243)), (3000, Some (9, 4244)), (4000, Some (10, 4245)),
                (5000, Some (11, 4246)), (6000, Some (12, 4247))] example_shell;
        s6 = desktop_shell_sigchld 7000 (Some (13, 4248)) s5
    in helper_launches example_shell = 1 \<and> helper_launches s5 = 6 \<and>
       child_deathcount s5 = 5 \<and> child_deathcount s6 = 6 \<and> child_deathstamp s6 = 1000 \<and>
       helper_launches s6 = 6 \<and> child_client s6 = None \<and>
       8000 - child_deathstamp s6 \<le> 30000 \<and>
       helper_launches (helper_deaths [(8000, Some (14, 4249))] s6) = 6)"
proof -
  let ?s5 = "helper_deaths
               [(2000, Some (8, 4243)), (3000, Some (9, 4244)), (4000, Some (10, 4245)),
                (5000, Some (11, 4246)), (6000, Some (12, 4247))] example_shell"
  note ev = desktop_shell_sigchld_def launch_desktop_shell_process_def emit_def Let_def
    helper_launches_def example_shell_eq
  have a: "child_deathcount ?s5 = 5" "child_deathstamp ?s5 = 1000" "helper_launches ?s5 = 6"
      "helper_launches example_shell = 1"
    by (simp_all add: ev)
  let ?s6 = "desktop_shell_sigchld 7000 (Some (13, 4248)) ?s5"
  note w = helper_respawn_window [of 7000 ?s5 "Some (13, 4248)" "[(8000, Some (14, 4249))]"]
  have b: "child_deathcount ?s6 = 6" "child_deathstamp ?s6 = 1000"
    using w a by (simp_all add: Let_def)
  have c: "helper_launches ?s6 = 6 \<and> child_client ?s6 = None"
    using w a b by (simp add: Let_def)
  have d: "helper_launches (helper_deaths [(8000, Some (14, 4249))] ?s6) = helper_launches ?s6"
    using w a b unfolding Let_def by simp
  show ?thesis
    unfolding Let_def using a b c d by simp
qed

subsection \<open>Role state machine\<close>

lemmas example_eval =
  example_lock_surface_shell_def example_shell_eq desktop_shell_set_lock_surface_def
  shell_get_shell_surface_def get_shell_surface_def lock_def bind_desktop_shell_def
  reset_shell_surface_type_def launch_screensaver_def calloc_shell_surface_def
  update_shsurf_def update_surface_def emit_def wl_list_remove_def Let_def
  example_compositor_def

lemma example_lock_surface_set:
  "desktop_shell_set_lock_surface 0
     (shell_get_shell_surface (Some 0) (Client_object 7 3) 10
        (lock 2000 None (bind_desktop_shell 7 2 example_shell))) =
   Inr example_lock_surface_shell"
  by (simp add: example_eval)

lemma example_lock_surface_reachable: "reachable example_lock_surface_shell"
  by (rule reachable_set_lock_surface [OF _ example_lock_surface_set])
     (intro reachable_get_shell_surface reachable_lock reachable_bind_desktop_shell
        example_reachable)

lemma example_lock_surface_fields:
  "type (shsurfs example_lock_surface_shell 0) = SHELL_SURFACE_LOCK"
  "surface (shsurfs example_lock_surface_shell 0) = 10"
  "saved_x (shsurfs example_lock_surface_shell 0) = 0"
  "saved_y (shsurfs example_lock_surface_shell 0) = 0"
  "lock_surface example_lock_surface_shell = Some 0"
  "locked example_lock_surface_shell"
  "trace example_lock_surface_shell = [Client_launch ''LIBEXECDIR/weston-desktop-shell'', Compositor_repick, Set_keyboard_focus_null 0 2000]"
  by (simp_all add: example_eval)

lemma reset_rejects_lock_and_screensaver:
  assumes "type (shsurfs s shsurf) = SHELL_SURFACE_LOCK \<or> type (shsurfs s shsurf) = SHELL_SURFACE_SCREENSAVER"
  shows "reset_shell_surface_type shsurf s =
     Inr (- 1, emit (Post_error (Shsurf_resource shsurf) WL_DISPLAY_ERROR_INVALID_METHOD
                        ''cannot reassign surface type'') s)"
  using assms by (auto simp: reset_shell_surface_type_def)

lemma role_request_rejected:
  assumes "type (shsurfs s shsurf) = SHELL_SURFACE_LOCK \<or> type (shsurfs s shsurf) = SHELL_SURFACE_SCREENSAVER"
    and "\<forall>dev time p x y flags. request \<noteq> Set_popup dev time p x y flags"
  shows "\<exists>s'. shell_surface_implementation now shsurf request s = Inr s' \<and>
     type (shsurfs s' shsurf) = type (shsurfs s shsurf) \<and>
     trace s' = trace s @ [Post_error (Shsurf_resource shsurf) WL_DISPLAY_ERROR_INVALID_METHOD
                        ''cannot reassign surface type'']"
proof (cases request)
  case Set_toplevel
  then show ?thesis
    using assms(1) by (simp add: shell_surface_set_toplevel_def reset_rejects_lock_and_screensaver emit_def)
next
  case (Set_transient p x y flags)
  then show ?thesis
    using assms(1) by (simp add: shell_surface_set_transient_def reset_rejects_lock_and_screensaver emit_def Let_def)
next
  case (Set_fullscreen fs_method framerate out)
  have t: "type (shsurfs (update_shsurf shsurf (shsurf_output_update f) s) shsurf) = type (shsurfs s shsurf)" for f
    by (simp add: update_shsurf_def)
  show ?thesis
    using assms(1) unfolding Set_fullscreen
    by (simp add: shell_surface_set_fullscreen_def reset_rejects_lock_and_screensaver t Let_def)
       (simp add: emit_def update_shsurf_def)
next
  case (Set_popup dev time p x y flags)
  then show ?thesis using assms(2) by simp
next
  case (Set_maximized out)
  have t: "type (shsurfs (update_shsurf shsurf (shsurf_output_update f) s) shsurf) = type (shsurfs s shsurf)" for f
    by (simp add: update_shsurf_def)
  show ?thesis
    using assms(1) unfolding Set_maximized
    by (simp add: shell_surface_set_maximized_def reset_rejects_lock_and_screensaver t Let_def)
       (simp add: emit_def update_shsurf_def)
qed

text \<open>
  Claim C1: every role request on a shell surface whose role is lock or screensaver
  fails with the protocol error "cannot reassign surface type" and leaves the role
  unchanged, and each of \<^verbatim>\<open>set_toplevel\<close>, \<^verbatim>\<open>set_transient\<close>, \<^verbatim>\<open>set_fullscreen\<close>,
  \<^verbatim>\<open>set_popup\<close> and \<^verbatim>\<open>set_maximized\<close> first runs the reset. The lemma above is the claim
  for four of the five requests. \<^verbatim>\<open>shell_surface_set_popup\<close> runs no reset: on the lock
  surface of the example the request is accepted, the role becomes popup and nothing is
  posted.
\<close>

theorem set_popup_on_lock_surface:
  "type (shsurfs example_lock_surface_shell 0) = SHELL_SURFACE_LOCK \<and>
   shell_surface_implementation 3000 0 (Set_popup 0 2500 1 5 5 0) example_lock_surface_shell =
     Inr (shell_surface_set_popup 0 0 2500 1 5 5 0 example_lock_surface_shell) \<and>
   type (shsurfs (shell_surface_set_popup 0 0 2500 1 5 5 0 example_lock_surface_shell) 0) =
     SHELL_SURFACE_POPUP \<and>
   trace (shell_surface_set_popup 0 0 2500 1 5 5 0 example_lock_surface_shell) =
     trace example_lock_surface_shell"
  by (simp add: example_lock_surface_fields shell_surface_set_popup_def update_shsurf_def)

text \<open>
  Leaving the fullscreen role. With a backdrop allocated, \<^verbatim>\<open>set_toplevel\<close> puts the
  surface, wherever it is, at the saved position, hands the backdrop to
  \<^verbatim>\<open>weston_surface_destroy\<close> and clears the pointer. With none allocated it hands \<^verbatim>\<open>NULL\<close>
  to \<^verbatim>\<open>weston_surface_destroy\<close>.
\<close>

lemma set_toplevel_from_fullscreen:
  assumes "type (shsurfs s shsurf) = SHELL_SURFACE_FULLSCREEN"
    and "black_surface (shsurfs s shsurf) = Some b"
  shows "\<exists>s'. shell_surface_set_toplevel shsurf s = Inr s' \<and>
     type (shsurfs s' shsurf) = SHELL_SURFACE_TOPLEVEL \<and>
     geometry_x (surfaces s' (surface (shsurfs s shsurf))) =
       real_of_int (saved_x (shsurfs s shsurf)) \<and>
     geometry_y (surfaces s' (surface (shsurfs s shsurf))) =
       real_of_int (saved_y (shsurfs s shsurf)) \<and>
     black_surface (shsurfs s' shsurf) = None \<and>
     trace s' = trace s @ [Surface_destroy b]"
  using assms
  by (simp add: shell_surface_set_toplevel_def reset_shell_surface_type_def
        shell_unset_fullscreen_def weston_surface_destroy_def weston_surface_set_position_def
        update_shsurf_def update_surface_def emit_def Let_def)

lemma set_toplevel_null_backdrop:
  assumes "type (shsurfs s shsurf) = SHELL_SURFACE_FULLSCREEN"
    and "black_surface (shsurfs s shsurf) = None"
  shows "shell_surface_set_toplevel shsurf s = Inl Null_dereference"
  using assms
  by (simp add: shell_surface_set_toplevel_def reset_shell_surface_type_def
        shell_unset_fullscreen_def weston_surface_destroy_def update_shsurf_def
        update_surface_def Let_def)

text \<open>
  The reset of a role other than fullscreen, lock and screensaver returns 0 and leaves
  the surface and the backdrop pointer of every shell surface as they are.
\<close>

lemma reset_accepts:
  assumes "type (shsurfs s shsurf) \<noteq> SHELL_SURFACE_LOCK"
    and "type (shsurfs s shsurf) \<noteq> SHELL_SURFACE_SCREENSAVER"
    and "type (shsurfs s shsurf) \<noteq> SHELL_SURFACE_FULLSCREEN"
  shows "\<exists>s1. reset_shell_surface_type shsurf s = Inr (0, s1) \<and>
     type (shsurfs s1 shsurf) = SHELL_SURFACE_NONE \<and>
     surface (shsurfs s1 i) = surface (shsurfs s i) \<and>
     black_surface (shsurfs s1 i) = black_surface (shsurfs s i)"
  using assms
  by (cases "type (shsurfs s shsurf)")
     (simp_all add: reset_shell_surface_type_def weston_surface_set_position_def
        update_shsurf_def update_surface_def unlink_shsurf_def Let_def)

lemma set_toplevel_keeps:
  assumes "type (shsurfs s shsurf) \<noteq> SHELL_SURFACE_LOCK"
    and "type (shsurfs s shsurf) \<noteq> SHELL_SURFACE_SCREENSAVER"
    and "type (shsurfs s shsurf) \<noteq> SHELL_SURFACE_FULLSCREEN"
  shows "\<exists>s1. shell_surface_set_toplevel shsurf s = Inr s1 \<and>
     type (shsurfs s1 shsurf) = SHELL_SURFACE_TOPLEVEL \<and>
     surface (shsurfs s1 shsurf) = surface (shsurfs s shsurf) \<and>
     black_surface (shsurfs s1 shsurf) = black_surface (shsurfs s shsurf)"
proof -
  from reset_accepts [OF assms, of shsurf] obtain s1 where
    "reset_shell_surface_type shsurf s = Inr (0, s1)"
    "surface (shsurfs s1 shsurf) = surface (shsurfs s shsurf)"
    "black_surface (shsurfs s1 shsurf) = black_surface (shsurfs s shsurf)"
    by blast
  then show ?thesis
    by (simp add: shell_surface_set_toplevel_def update_shsurf_def)
qed

text \<open>
  Entering the fullscreen role from the toplevel role: the position is left alone, its
  truncation to \<^verbatim>\<open>int32_t\<close> is saved, and the backdrop pointer is the one before the
  request, since only \<^verbatim>\<open>shell_configure_fullscreen\<close> allocates a backdrop.
\<close>

lemma set_fullscreen_enters:
  assumes "type (shsurfs s shsurf) = SHELL_SURFACE_TOPLEVEL"
    and "shell_surface_set_fullscreen now shsurf method framerate output_resource s = Inr s2"
  shows "type (shsurfs s2 shsurf) = SHELL_SURFACE_FULLSCREEN"
    and "surface (shsurfs s2 shsurf) = surface (shsurfs s shsurf)"
    and "saved_position_valid (shsurfs s2 shsurf)"
    and "GLfloat_to_int32 (geometry_x (surfaces s (surface (shsurfs s shsurf)))) =
           Inr (saved_x (shsurfs s2 shsurf))"
    and "GLfloat_to_int32 (geometry_y (surfaces s (surface (shsurfs s shsurf)))) =
           Inr (saved_y (shsurfs s2 shsurf))"
    and "geometry_x (surfaces s2 es) = geometry_x (surfaces s es)"
    and "geometry_y (surfaces s2 es) = geometry_y (surfaces s es)"
    and "black_surface (shsurfs s2 shsurf) = black_surface (shsurfs s shsurf)"
  using assms
  by (auto simp: shell_surface_set_fullscreen_def reset_shell_surface_type_def Let_def
        update_shsurf_def update_surface_def emit_def split: sum.splits option.splits if_splits)

text \<open>
  So for a shell surface with no backdrop allocated, whose role is neither lock nor
  screensaver, the three requests never run to the end: with no map or configure of the
  compositor in between, the last \<^verbatim>\<open>set_toplevel\<close> reaches \<^verbatim>\<open>weston_surface_destroy\<close> with
  \<^verbatim>\<open>NULL\<close>, unless a request before it has already met a fault.
\<close>

lemma toplevel_fullscreen_toplevel_unmapped:
  assumes "type (shsurfs s shsurf) \<noteq> SHELL_SURFACE_LOCK"
    and "type (shsurfs s shsurf) \<noteq> SHELL_SURFACE_SCREENSAVER"
    and "black_surface (shsurfs s shsurf) = None"
  shows "\<exists>f. role_requests now shsurf
           [Set_toplevel, Set_fullscreen method framerate out, Set_toplevel] s = Inl f"
proof (cases "type (shsurfs s shsurf) = SHELL_SURFACE_FULLSCREEN")
  case True
  then show ?thesis
    using assms(3) by (simp add: set_toplevel_null_backdrop)
next
  case False
  from set_toplevel_keeps [OF assms(1,2) False] assms(3) obtain s1 where
    1: "shell_surface_set_toplevel shsurf s = Inr s1"
    and t1: "type (shsurfs s1 shsurf) = SHELL_SURFACE_TOPLEVEL"
    and b1: "black_surface (shsurfs s1 shsurf) = None"
    by auto
  show ?thesis
  proof (cases "shell_surface_set_fullscreen now shsurf method framerate out s1")
    case (Inl f)
    then show ?thesis using 1 by simp
  next
    case (Inr s2)
    from set_fullscreen_enters(1,8) [OF t1 Inr] b1
    have "shell_surface_set_toplevel shsurf s2 = Inl Null_dereference"
      by (intro set_toplevel_null_backdrop) simp_all
    then show ?thesis using 1 Inr by simp
  qed
qed

text \<open>
  Claim C6. The sequence \<^verbatim>\<open>set_toplevel\<close>; \<^verbatim>\<open>set_fullscreen\<close>; \<^verbatim>\<open>set_toplevel\<close> is to
  restore the position saved at the entry to fullscreen and to destroy the black
  backdrop, leaving none allocated. On the fresh shell surface of the example, at
  (30.5, 40), the first two requests make the surface fullscreen, save the position
  (30, 40) and allocate no backdrop, which only a map or configure of the compositor
  does; the third request then hands \<^verbatim>\<open>NULL\<close> to \<^verbatim>\<open>weston_surface_destroy\<close> and does not
  complete. \<^verbatim>\<open>destroy_shell_surface\<close> tests the backdrop for \<^verbatim>\<open>NULL\<close> before the same
  call; \<^verbatim>\<open>shell_unset_fullscreen\<close> does not.
\<close>

theorem toplevel_fullscreen_toplevel_null_backdrop:
  "type (shsurfs example_fresh_shell 0) = SHELL_SURFACE_NONE \<and>
   (geometry_x (surfaces example_fresh_shell 10), geometry_y (surfaces example_fresh_shell 10)) =
     (61 / 2, 40) \<and>
   (\<exists>s2. role_requests 3000 0 [Set_toplevel, Set_fullscreen 0 0 None] example_fresh_shell =
            Inr s2 \<and>
          type (shsurfs s2 0) = SHELL_SURFACE_FULLSCREEN \<and>
          (saved_x (shsurfs s2 0), saved_y (shsurfs s2 0)) = (30, 40) \<and>
          black_surface (shsurfs s2 0) = None \<and>
          trace s2 = trace example_fresh_shell @ [Shell_surface_send_configure 0 3000 0 1920 1080]) \<and>
   role_requests 3000 0 [Set_toplevel, Set_fullscreen 0 0 None, Set_toplevel] example_fresh_shell =
     Inl Null_dereference"
proof -
  note ev = example_fresh_shell_def weston_surface_set_position_def shell_get_shell_surface_def
    get_shell_surface_def update_surface_def calloc_shell_surface_def example_shell_eq
    example_compositor_def
  have t: "type (shsurfs example_fresh_shell 0) = SHELL_SURFACE_NONE"
    and g: "geometry_x (surfaces example_fresh_shell 10) = 61 / 2"
      "geometry_y (surfaces example_fresh_shell 10) = 40"
    by (simp_all add: ev)
  let ?s1 = "update_shsurf 0 (\<lambda>h. h\<lparr>type := SHELL_SURFACE_TOPLEVEL\<rparr>)
               (update_shsurf 0 (\<lambda>h. h\<lparr>type := SHELL_SURFACE_NONE\<rparr>) example_fresh_shell)"
  have 1: "shell_surface_set_toplevel 0 example_fresh_shell = Inr ?s1"
    using t by (simp add: shell_surface_set_toplevel_def reset_shell_surface_type_def)
  have "\<exists>s2. shell_surface_set_fullscreen 3000 0 0 0 None ?s1 = Inr s2 \<and>
      type (shsurfs s2 0) = SHELL_SURFACE_FULLSCREEN \<and>
      saved_x (shsurfs s2 0) = 30 \<and> saved_y (shsurfs s2 0) = 40 \<and>
      black_surface (shsurfs s2 0) = None \<and>
      trace s2 = trace example_fresh_shell @ [Shell_surface_send_configure 0 3000 0 1920 1080]"
    by (simp add: shell_surface_set_fullscreen_def reset_shell_surface_type_def Let_def
          update_shsurf_def emit_def get_default_output_def GLfloat_to_int32_def is_int32_def ev)
  then obtain s2 where 2: "shell_surface_set_fullscreen 3000 0 0 0 None ?s1 = Inr s2"
    and f2: "type (shsurfs s2 0) = SHELL_SURFACE_FULLSCREEN"
      "saved_x (shsurfs s2 0) = 30" "saved_y (shsurfs s2 0) = 40"
      "black_surface (shsurfs s2 0) = None"
      "trace s2 = trace example_fresh_shell @ [Shell_surface_send_configure 0 3000 0 1920 1080]"
    by blast
  have 3: "shell_surface_set_toplevel 0 s2 = Inl Null_dereference"
    using f2(1,4) by (rule set_toplevel_null_backdrop)
  have two: "role_requests 3000 0 [Set_toplevel, Set_fullscreen 0 0 None] example_fresh_shell =
      Inr s2"
    by (simp add: 1 2)
  have three: "role_requests 3000 0 [Set_toplevel, Set_fullscreen 0 0 None, Set_toplevel]
      example_fresh_shell = Inl Null_dereference"
    by (simp add: 1 2 3)
  show ?thesis
    using t g two three f2 by simp
qed
subsection \<open>Rotate grab\<close>

text \<open>
  Claim C9, amended. On a motion of the rotate grab with the pointer within 20 pixels of
  the stored centre, the rotation transform is taken off the surface's transformation
  list and not put back, and the committed rotation of the shell surface and the
  rotation of the grab are both reset to the identity; the transform matrix is left as
  it was and a repaint is scheduled. The distance is the real square root, where the C
  code rounds to \<^verbatim>\<open>float\<close>.
\<close>

theorem rotate_within_20_resets:
  assumes "(let d = input_devices s device;
                dx = real_of_int (device_x d - center_x grab);
                dy = real_of_int (device_y d - center_y grab)
            in sqrt (dx * dx + dy * dy) \<le> 20)"
  shows "(let shsurf = rotate_surface grab;
              es = surface (shsurfs s shsurf);
              grab' = fst (rotate_grab_motion multiply translate grab device time s);
              s' = snd (rotate_grab_motion multiply translate grab device time s)
          in rotation_transform \<notin> set (transformation_list (surfaces s' es)) \<and>
             rotation_rotation (shsurfs s' shsurf) = weston_matrix_init \<and>
             rotate_rotation grab' = weston_matrix_init \<and>
             rotation_transform_matrix (shsurfs s' shsurf) =
               rotation_transform_matrix (shsurfs s shsurf) \<and>
             trace s' = trace s @ [Compositor_schedule_repaint])"
  using assms
  by (simp add: rotate_grab_motion_def Let_def update_shsurf_def update_surface_def emit_def
        wl_list_remove_def not_less [symmetric])

lemma example_rotated_fields:
  "surface (shsurfs example_rotated_shell 0) = 10"
  "rotation_rotation (shsurfs example_rotated_shell 0) = quarter_turn"
  "type (shsurfs example_rotated_shell 0) = SHELL_SURFACE_TOPLEVEL"
  "input_devices example_rotated_shell 0 = ec_input_devices example_compositor 0"
  by (simp_all add: example_rotated_shell_def shell_surface_set_toplevel_def example_eval)

lemma example_pointer_fields:
  "device_x (input_devices (update_device 0 (\<lambda>d. d\<lparr>device_x := 62, device_y := 66\<rparr>) example_rotated_shell) 0) = 62"
  "device_y (input_devices (update_device 0 (\<lambda>d. d\<lparr>device_x := 62, device_y := 66\<rparr>) example_rotated_shell) 0) = 66"
  "shsurfs (update_device 0 f example_rotated_shell) = shsurfs example_rotated_shell"
  "surfaces (update_device 0 f example_rotated_shell) = surfaces example_rotated_shell"
  "trace (update_device 0 f example_rotated_shell) = trace example_rotated_shell"
  by (simp_all add: update_device_def)

theorem rotate_within_20_resets_witness:
  "(let s = update_device 0 (\<lambda>d. d\<lparr>device_x := 62, device_y := 66\<rparr>) example_rotated_shell;
        grab = \<lparr>rotate_surface = 0, rotate_rotation = quarter_turn,
                 center_x = 50, center_y = 50\<rparr>;
        grab' = fst (rotate_grab_motion (\<lambda>m n. m) (\<lambda>m x y z. m) grab 0 3000 s);
        s' = snd (rotate_grab_motion (\<lambda>m n. m) (\<lambda>m x y z. m) grab 0 3000 s)
    in sqrt (real_of_int (device_x (input_devices s 0) - center_x grab) *
             real_of_int (device_x (input_devices s 0) - center_x grab) +
             real_of_int (device_y (input_devices s 0) - center_y grab) *
             real_of_int (device_y (input_devices s 0) - center_y grab)) \<le> 20 \<and>
       rotation_transform \<notin> set (transformation_list (surfaces s' 10)) \<and>
       rotation_rotation (shsurfs s' 0) = weston_matrix_init \<and>
       rotate_rotation grab' = weston_matrix_init \<and>
       trace s' = trace s @ [Compositor_schedule_repaint])"
proof -
  let ?s = "update_device 0 (\<lambda>d. d\<lparr>device_x := 62, device_y := 66\<rparr>) example_rotated_shell"
  let ?g = "\<lparr>rotate_surface = 0, rotate_rotation = quarter_turn, center_x = 50, center_y = 50\<rparr>"
  have r: "sqrt 400 = 20" using real_sqrt_abs [of 20] by simp
  have h: "(let d = input_devices ?s 0;
                dx = real_of_int (device_x d - center_x ?g);
                dy = real_of_int (device_y d - center_y ?g)
            in sqrt (dx * dx + dy * dy) \<le> 20)"
    by (simp add: Let_def example_pointer_fields r)
  show ?thesis
    using h rotate_within_20_resets [OF h, of "\<lambda>m n. m" "\<lambda>m x y z. m" 3000]
    by (simp add: Let_def example_pointer_fields example_rotated_fields)
qed

text \<open>
  Claim C9 as stated fails in its second half: with a committed quarter turn and the
  pointer at distance 20 from the centre, the motion replaces the committed rotation by
  the identity.
\<close>

theorem rotate_within_20_counterexample:
  "(let s = update_device 0 (\<lambda>d. d\<lparr>device_x := 62, device_y := 66\<rparr>) example_rotated_shell;
        grab = \<lparr>rotate_surface = 0, rotate_rotation = weston_matrix_init,
                 center_x = 50, center_y = 50\<rparr>;
        s' = snd (rotate_grab_motion (\<lambda>m n. m) (\<lambda>m x y z. m) grab 0 3000 s)
    in sqrt (real_of_int ((62 - 50) * (62 - 50) + (66 - 50) * (66 - 50))) = 20 \<and>
       (device_x (input_devices s 0), device_y (input_devices s 0)) = (62, 66) \<and>
       rotation_rotation (shsurfs s 0) = quarter_turn \<and>
       rotation_rotation (shsurfs s' 0) = weston_matrix_init \<and>
       rotation_rotation (shsurfs s' 0) \<noteq> rotation_rotation (shsurfs s 0))"
proof -
  have r: "sqrt 400 = 20" using real_sqrt_abs [of 20] by simp
  have n: "weston_matrix_init \<noteq> quarter_turn"
    by (simp add: weston_matrix_init_def quarter_turn_def)
  show ?thesis
    using n
    by (simp add: Let_def rotate_grab_motion_def example_rotated_fields example_pointer_fields r
          update_shsurf_def update_surface_def emit_def)
qed

end
